theory Spec2Isabelle
  imports Complex_Main "HOL-Library.Char_ord" "HOL-Library.List_Lexorder"
begin

section \<open>Latent link prediction: the graph and the values the query works on\<close>

text \<open>
  The script \<^verbatim>\<open>scripts/compute_matches.js\<close> runs three Cypher statements against a
  property graph. The graph is modelled as a list of nodes and a list of relationships;
  a node is identified by its position in the node list, a relationship by its position
  in the relationship list (two relationships with the same endpoints and type are still
  two relationships).

  Property values: \<open>id\<close> and \<open>industry\<close> are dynamically typed in Cypher, so they are
  integers or strings here (the ingestion and the registration route write strings), and
  \<open>None\<close> is Cypher's \<open>null\<close> (a missing property reads as \<open>null\<close>). Material and
  company names are strings.
\<close>

datatype val = VInt int | VStr string

datatype label = Company | WasteMaterial | Regulation

datatype rel_type =
  PRODUCES | CAN_UPCYCLE | REQUIRES_COMPLIANCE | COMPLEMENTS | IS_SEEKING | POTENTIAL_MATCH

record node =
  labels :: "label list"
  prop_id :: "val option"
  prop_name :: "string option"
  prop_industry :: "val option"

text \<open>
  Cypher floats. The similarity is a float obtained by one division; it is modelled by
  the exact rational quotient, with the two non-finite results of a float division by
  zero kept apart. Rounding errors of doubles are not modelled: where the exact value of
  \<open>jaccard * 1000\<close> is a tie such as \<open>502.5\<close>, the double may lie just below it and
  round down.
\<close>

datatype cfloat = Fin rat | PosInf | NaN

record match_props =
  score :: cfloat
  shared_materials :: nat
  shared_names :: "string list"
  computed_at :: nat

record rel =
  src :: nat
  tgt :: nat
  rtype :: rel_type
  props :: "match_props option"

record graph =
  nodes :: "node list"
  rels :: "rel list"

subsection \<open>Three-valued comparisons\<close>

text \<open>
  \<open>a < b\<close> is \<open>null\<close> when an operand is \<open>null\<close> or the operands are not comparable
  (an integer with a string); \<open>a <> b\<close> is \<open>null\<close> when an operand is \<open>null\<close>.
  A \<open>WHERE\<close> keeps a row only when its predicate is \<open>true\<close>.
\<close>

fun cy_lt :: "val option \<Rightarrow> val option \<Rightarrow> bool option" where
  "cy_lt (Some (VInt a)) (Some (VInt b)) = Some (a < b)"
| "cy_lt (Some (VStr a)) (Some (VStr b)) = Some (a < b)"
| "cy_lt _ _ = None"

fun cy_neq :: "val option \<Rightarrow> val option \<Rightarrow> bool option" where
  "cy_neq (Some a) (Some b) = Some (a \<noteq> b)"
| "cy_neq _ _ = None"

subsection \<open>Float operations of the query\<close>

text \<open>\<open>toFloat(shared) / d\<close> with an integer \<open>d\<close>.\<close>

definition fdiv :: "nat \<Rightarrow> int \<Rightarrow> cfloat" where
  "fdiv s d = (if d = 0 then (if s = 0 then NaN else PosInf) else Fin (of_nat s / of_int d))"

fun ge_float :: "cfloat \<Rightarrow> rat \<Rightarrow> bool" where
  "ge_float (Fin q) t = (t \<le> q)"
| "ge_float PosInf t = True"
| "ge_float NaN t = False"

text \<open>\<open>round(j * 1000) / 1000.0\<close>; Cypher's \<open>round\<close> sends ties towards positive infinity.\<close>

fun round3 :: "cfloat \<Rightarrow> cfloat" where
  "round3 (Fin q) = Fin (of_int (round (q * 1000)) / 1000)"
| "round3 PosInf = PosInf"
| "round3 NaN = NaN"

definition JACCARD_THRESHOLD :: rat where
  "JACCARD_THRESHOLD = 12 / 100"

section \<open>The statements\<close>

definition has_label :: "graph \<Rightarrow> nat \<Rightarrow> label \<Rightarrow> bool" where
  "has_label g n l \<longleftrightarrow> n < length (nodes g) \<and> l \<in> set (labels (nodes g ! n))"

definition link_type :: "rel_type \<Rightarrow> bool" where
  "link_type t \<longleftrightarrow> t = PRODUCES \<or> t = CAN_UPCYCLE"

text \<open>Step 1: \<open>MATCH ()-[r:POTENTIAL_MATCH]->() DELETE r RETURN count(r) AS deleted\<close>.\<close>

definition delete_matches :: "graph \<Rightarrow> graph \<times> nat" where
  "delete_matches g =
     (g\<lparr>rels := filter (\<lambda>r. rtype r \<noteq> POTENTIAL_MATCH) (rels g)\<rparr>,
      length (filter (\<lambda>r. rtype r = POTENTIAL_MATCH) (rels g)))"

text \<open>
  Step 2, the \<open>MATCH\<close>:
  \<open>(c1:Company)-[:PRODUCES|CAN_UPCYCLE]->(w:WasteMaterial)<-[:PRODUCES|CAN_UPCYCLE]-(c2:Company)\<close>.
  One row \<open>(c1, w, c2)\<close> per pair of distinct relationships that meet in \<open>w\<close>
  (a relationship is not traversed twice in one pattern; nodes may repeat).
\<close>

definition match_paths :: "graph \<Rightarrow> (nat \<times> nat \<times> nat) list" where
  "match_paths g =
     [(src e1, tgt e1, src e2).
        (i, e1) \<leftarrow> enumerate 0 (rels g), (j, e2) \<leftarrow> enumerate 0 (rels g),
        i \<noteq> j \<and> link_type (rtype e1) \<and> link_type (rtype e2) \<and> tgt e1 = tgt e2
          \<and> has_label g (src e1) Company \<and> has_label g (tgt e1) WasteMaterial
          \<and> has_label g (src e2) Company]"

text \<open>\<open>WHERE c1.id < c2.id AND c1.industry <> c2.industry\<close>.\<close>

definition where_pair :: "graph \<Rightarrow> nat \<Rightarrow> nat \<Rightarrow> bool" where
  "where_pair g a b \<longleftrightarrow>
     cy_lt (prop_id (nodes g ! a)) (prop_id (nodes g ! b)) = Some True
     \<and> cy_neq (prop_industry (nodes g ! a)) (prop_industry (nodes g ! b)) = Some True"

definition where_rows :: "graph \<Rightarrow> (nat \<times> nat \<times> nat) list" where
  "where_rows g = filter (\<lambda>(a, w, b). where_pair g a b) (match_paths g)"

text \<open>
  \<open>WITH c1, c2, count(DISTINCT w) AS shared, collect(DISTINCT w.name) AS sharedNames\<close>:
  one row per distinct \<open>(c1, c2)\<close>; \<open>collect\<close> skips \<open>null\<close>.
\<close>

definition group_keys :: "(nat \<times> nat \<times> nat) list \<Rightarrow> (nat \<times> nat) list" where
  "group_keys rows = remdups (map (\<lambda>(a, w, b). (a, b)) rows)"

definition group_ws :: "(nat \<times> nat \<times> nat) list \<Rightarrow> nat \<Rightarrow> nat \<Rightarrow> nat list" where
  "group_ws rows a b = map (\<lambda>(a', w, b'). w) (filter (\<lambda>(a', w, b'). a' = a \<and> b' = b) rows)"

text \<open>
  \<open>size([(c)-[:PRODUCES|CAN_UPCYCLE]->(w1:WasteMaterial) | w1])\<close>: the pattern
  comprehension has one element per matching relationship.
\<close>

definition links :: "graph \<Rightarrow> nat \<Rightarrow> rel list" where
  "links g c =
     filter (\<lambda>e. src e = c \<and> link_type (rtype e) \<and> has_label g (tgt e) WasteMaterial) (rels g)"

definition links_total :: "graph \<Rightarrow> nat \<Rightarrow> nat" where
  "links_total g c = length (links g c)"

record row =
  c1 :: nat
  c2 :: nat
  shared :: nat
  sharedNames :: "string list"
  c1Total :: nat
  c2Total :: nat
  jaccard :: cfloat

definition denominator :: "nat \<Rightarrow> nat \<Rightarrow> nat \<Rightarrow> int" where
  "denominator t1 t2 s = int t1 + int t2 - int s"

definition score_row :: "graph \<Rightarrow> (nat \<times> nat \<times> nat) list \<Rightarrow> nat \<times> nat \<Rightarrow> row" where
  "score_row g rows k =
     (let a = fst k; b = snd k;
          ws = group_ws rows a b;
          s = length (remdups ws);
          t1 = links_total g a;
          t2 = links_total g b
      in \<lparr>c1 = a, c2 = b, shared = s,
          sharedNames = remdups (List.map_filter (\<lambda>w. prop_name (nodes g ! w)) ws),
          c1Total = t1, c2Total = t2,
          jaccard = fdiv s (denominator t1 t2 s)\<rparr>)"

definition scored_rows :: "graph \<Rightarrow> row list" where
  "scored_rows g = map (score_row g (where_rows g)) (group_keys (where_rows g))"

text \<open>\<open>WHERE jaccard >= $threshold\<close>.\<close>

definition retained :: "graph \<Rightarrow> row list" where
  "retained g = filter (\<lambda>r. ge_float (jaccard r) JACCARD_THRESHOLD) (scored_rows g)"

text \<open>
  \<open>MERGE (c1)-[r:POTENTIAL_MATCH]->(c2) SET r.score = ..., r.shared_materials = shared,
  r.shared_names = sharedNames[0..5], r.computed_at = datetime()\<close>, row by row:
  every existing relationship of that type and direction is bound and updated; when
  there is none, one is created. The second component counts the records returned.
\<close>

definition new_props :: "nat \<Rightarrow> row \<Rightarrow> match_props" where
  "new_props now r =
     \<lparr>score = round3 (jaccard r), shared_materials = shared r,
      shared_names = take 5 (sharedNames r), computed_at = now\<rparr>"

definition is_match :: "row \<Rightarrow> rel \<Rightarrow> bool" where
  "is_match r e \<longleftrightarrow> rtype e = POTENTIAL_MATCH \<and> src e = c1 r \<and> tgt e = c2 r"

definition new_edge :: "nat \<Rightarrow> row \<Rightarrow> rel" where
  "new_edge now r =
     \<lparr>src = c1 r, tgt = c2 r, rtype = POTENTIAL_MATCH, props = Some (new_props now r)\<rparr>"

definition merge_set :: "nat \<Rightarrow> rel list \<times> nat \<Rightarrow> row \<Rightarrow> rel list \<times> nat" where
  "merge_set now st r =
     (let rs = fst st; n = snd st in
      if \<exists>e \<in> set rs. is_match r e
      then (map (\<lambda>e. if is_match r e then e\<lparr>props := Some (new_props now r)\<rparr> else e) rs,
            n + length (filter (is_match r) rs))
      else (rs @ [new_edge now r], n + 1))"

text \<open>
  The statement runs in one auto-commit transaction (\<open>session.run\<close>): when the write
  for a row raises, the statement raises and none of its writes is kept. Which writes
  raise is a parameter \<open>wfail\<close> of the environment. The statement returns one record
  per relationship bound, \<open>ORDER BY score DESC\<close>; the script reads their number and
  lists the first ten on the console, so the result here is the new graph and that
  number.
\<close>

datatype error = Neo4jError | TypeError

definition compute_matches :: "(nat \<Rightarrow> nat \<Rightarrow> bool) \<Rightarrow> nat \<Rightarrow> graph \<Rightarrow> error + graph \<times> nat" where
  "compute_matches wfail now g =
     (let rows = retained g in
      if \<exists>r \<in> set rows. wfail (c1 r) (c2 r) then Inl Neo4jError
      else (let st = foldl (merge_set now) (rels g, 0) rows
            in Inr (g\<lparr>rels := fst st\<rparr>, snd st)))"

text \<open>
  Step 3: \<open>MATCH ()-[r:POTENTIAL_MATCH]->() RETURN count(r) AS total, avg(r.score) AS avgScore\<close>.
  \<open>avg\<close> skips relationships without a score and is \<open>null\<close> when none is left.
\<close>

definition matches :: "graph \<Rightarrow> rel list" where
  "matches g = filter (\<lambda>e. rtype e = POTENTIAL_MATCH) (rels g)"

fun fadd :: "cfloat \<Rightarrow> cfloat \<Rightarrow> cfloat" where
  "fadd (Fin a) (Fin b) = Fin (a + b)"
| "fadd NaN _ = NaN"
| "fadd _ NaN = NaN"
| "fadd _ _ = PosInf"

definition avg :: "cfloat list \<Rightarrow> cfloat option" where
  "avg ss =
     (if ss = [] then None
      else Some (case foldr fadd ss (Fin 0) of
                   Fin t \<Rightarrow> Fin (t / of_nat (length ss))
                 | v \<Rightarrow> v))"

definition verify_matches :: "graph \<Rightarrow> nat \<times> cfloat option" where
  "verify_matches g =
     (length (matches g),
      avg (List.map_filter (\<lambda>e. map_option score (props e)) (matches g)))"

section \<open>The script\<close>

record env =
  NEO4J_URI :: "string option"
  NEO4J_USERNAME :: "string option"
  NEO4J_PASSWORD :: "string option"

text \<open>JavaScript's \<open>!s\<close> on an environment variable: unset or the empty string.\<close>

definition falsy :: "string option \<Rightarrow> bool" where
  "falsy s \<longleftrightarrow> s = None \<or> s = Some []"

text \<open>
  What the process does, in order: console lines, driver calls and statements.
  \<open>LogTop n\<close> stands for the heading and the \<open>n\<close> lines of the listing of the first
  ten records.
\<close>

datatype event =
  ErrMissingEnv | LogConnecting | CreateDriver | VerifyConnectivity | LogConnected
  | OpenSession | LogClearing | QueryDelete | LogRemoved nat | LogComputing | QueryCompute
  | LogFound nat | LogTop nat | LogVerifying | QueryVerify | LogTotal nat | LogComplete
  | CloseSession | CloseDriver | LogClosed | ErrFatal

text \<open>
  \<open>main\<close>: the events in order, whether it threw, and the graph it leaves.
  \<open>conn_ok\<close> says whether \<open>driver.verifyConnectivity()\<close> succeeds; the \<open>finally\<close>
  block runs once the session exists.

  The last console line reads \<open>avgScore\<close> with
  \<open>typeof avgScore === "object" ? avgScore.toNumber().toFixed(3) : ...\<close>. The driver
  hands a Cypher \<open>null\<close> over as JavaScript's \<open>null\<close>, whose \<open>typeof\<close> is
  \<open>"object"\<close>, so \<open>null.toNumber()\<close> raises a \<open>TypeError\<close>; a float is a
  JavaScript number and is printed.
\<close>

definition finally_block :: "event list" where
  "finally_block = [CloseSession, CloseDriver, LogClosed]"

definition main :: "bool \<Rightarrow> (nat \<Rightarrow> nat \<Rightarrow> bool) \<Rightarrow> nat \<Rightarrow> graph \<Rightarrow> event list \<times> (error + unit) \<times> graph" where
  "main conn_ok wfail now g =
     (if \<not> conn_ok then ([LogConnecting, CreateDriver, VerifyConnectivity], Inl Neo4jError, g)
      else
        (let pre = [LogConnecting, CreateDriver, VerifyConnectivity, LogConnected, OpenSession];
             (g1, deleted) = delete_matches g;
             step1 = [LogClearing, QueryDelete, LogRemoved deleted]
         in case compute_matches wfail now g1 of
              Inl e \<Rightarrow>
                (pre @ step1 @ [LogComputing, QueryCompute] @ finally_block, Inl e, g1)
            | Inr (g2, found) \<Rightarrow>
                (let step2 = [LogComputing, QueryCompute, LogFound found]
                       @ (if 0 < found then [LogTop (min 10 found)] else []);
                     (total, avgScore) = verify_matches g2
                 in if avgScore = None
                    then (pre @ step1 @ step2 @ [LogVerifying, QueryVerify] @ finally_block,
                          Inl TypeError, g2)
                    else (pre @ step1 @ step2
                            @ [LogVerifying, QueryVerify, LogTotal total, LogComplete]
                            @ finally_block,
                          Inr (), g2))))"

record outcome =
  trace :: "event list"
  exit_code :: nat
  final :: graph

text \<open>
  The module: the check of the environment, then \<open>main().catch(...)\<close>.
\<close>

definition missing_env :: "env \<Rightarrow> bool" where
  "missing_env e \<longleftrightarrow> falsy (NEO4J_URI e) \<or> falsy (NEO4J_USERNAME e) \<or> falsy (NEO4J_PASSWORD e)"

definition script :: "env \<Rightarrow> bool \<Rightarrow> (nat \<Rightarrow> nat \<Rightarrow> bool) \<Rightarrow> nat \<Rightarrow> graph \<Rightarrow> outcome" where
  "script e conn_ok wfail now g =
     (if missing_env e then \<lparr>trace = [ErrMissingEnv], exit_code = 1, final = g\<rparr>
      else case main conn_ok wfail now g of
             (tr, Inl err, g') \<Rightarrow> \<lparr>trace = tr @ [ErrFatal], exit_code = 1, final = g'\<rparr>
           | (tr, Inr u, g') \<Rightarrow> \<lparr>trace = tr, exit_code = 0, final = g'\<rparr>)"

section \<open>Profiles and similarity as sets\<close>

text \<open>
  The material profile of a company in the glossary's sense: the set of distinct
  waste materials it is linked to by \<open>PRODUCES\<close> or \<open>CAN_UPCYCLE\<close>; and the Jaccard
  similarity of two profiles, intersection size over union size. These follow the
  specification's words and are what the query's numbers are compared with.
\<close>

definition profile :: "graph \<Rightarrow> nat \<Rightarrow> nat set" where
  "profile g c = tgt ` set (links g c)"

definition jaccard_sets :: "graph \<Rightarrow> nat \<Rightarrow> nat \<Rightarrow> rat" where
  "jaccard_sets g a b =
     of_nat (card (profile g a \<inter> profile g b))
       / (of_nat (card (profile g a)) + of_nat (card (profile g b))
            - of_nat (card (profile g a \<inter> profile g b)))"

text \<open>The pairs for which the grouped query has a row.\<close>

definition candidate :: "graph \<Rightarrow> nat \<Rightarrow> nat \<Rightarrow> bool" where
  "candidate g a b \<longleftrightarrow>
     has_label g a Company \<and> has_label g b Company \<and> where_pair g a b
     \<and> profile g a \<inter> profile g b \<noteq> {}"

text \<open>The graph after step 1.\<close>

definition cleared :: "graph \<Rightarrow> graph" where
  "cleared g = fst (delete_matches g)"

text \<open>The events of \<open>main\<close> up to the moment the second statement is sent.\<close>

definition trace_to_compute :: "nat \<Rightarrow> event list" where
  "trace_to_compute deleted =
     [LogConnecting, CreateDriver, VerifyConnectivity, LogConnected, OpenSession,
      LogClearing, QueryDelete, LogRemoved deleted, LogComputing, QueryCompute]"

text \<open>What two runs are compared on: the pair, the score and the shared-material count.\<close>

definition match_tuple :: "rel \<Rightarrow> nat \<times> nat \<times> cfloat option \<times> nat option" where
  "match_tuple x = (src x, tgt x, map_option score (props x), map_option shared_materials (props x))"

definition between :: "nat \<Rightarrow> nat \<Rightarrow> rel \<Rightarrow> bool" where
  "between a b x \<longleftrightarrow> (src x = a \<and> tgt x = b) \<or> (src x = b \<and> tgt x = a)"

section \<open>Example graphs\<close>

definition company :: "string \<Rightarrow> string \<Rightarrow> string \<Rightarrow> node" where
  "company i n ind =
     \<lparr>labels = [Company], prop_id = Some (VStr i), prop_name = Some n,
      prop_industry = Some (VStr ind)\<rparr>"

definition material :: "string \<Rightarrow> string \<Rightarrow> node" where
  "material i n =
     \<lparr>labels = [WasteMaterial], prop_id = Some (VStr i), prop_name = Some n,
      prop_industry = None\<rparr>"

definition link :: "rel_type \<Rightarrow> nat \<Rightarrow> nat \<Rightarrow> rel" where
  "link t a w = \<lparr>src = a, tgt = w, rtype = t, props = None\<rparr>"

definition potential_match :: "nat \<Rightarrow> nat \<Rightarrow> rat \<Rightarrow> nat \<Rightarrow> string list \<Rightarrow> nat \<Rightarrow> rel" where
  "potential_match a b q s ns t =
     \<lparr>src = a, tgt = b, rtype = POTENTIAL_MATCH,
      props = Some \<lparr>score = Fin q, shared_materials = s, shared_names = ns, computed_at = t\<rparr>\<rparr>"

definition env_ok :: env where
  "env_ok = \<lparr>NEO4J_URI = Some ''neo4j+s://db'', NEO4J_USERNAME = Some ''neo4j'',
             NEO4J_PASSWORD = Some ''secret''\<rparr>"

definition env_no_password :: env where
  "env_no_password = \<lparr>NEO4J_URI = Some ''neo4j+s://db'', NEO4J_USERNAME = Some ''neo4j'',
                      NEO4J_PASSWORD = None\<rparr>"

definition no_fail :: "nat \<Rightarrow> nat \<Rightarrow> bool" where
  "no_fail a b = False"

definition fail_first :: "nat \<Rightarrow> nat \<Rightarrow> bool" where
  "fail_first a b \<longleftrightarrow> a = 0 \<and> b = 1"

text \<open>Profiles \<open>{m1, m2, m3}\<close> and \<open>{m2, m3, m4}\<close>.\<close>

definition g_half :: graph where
  "g_half =
     \<lparr>nodes = [company ''company_1'' ''A'' ''Steel'', company ''company_2'' ''B'' ''Chemicals'',
               material ''waste_3'' ''m1'', material ''waste_4'' ''m2'',
               material ''waste_5'' ''m3'', material ''waste_6'' ''m4''],
      rels = [link PRODUCES 0 2, link PRODUCES 0 3, link PRODUCES 0 4,
              link PRODUCES 1 3, link CAN_UPCYCLE 1 4, link PRODUCES 1 5]\<rparr>"

text \<open>
  SteelCo and SteelCo2 (Steel) produce SlagA and SlagB; ChemCo (Chemicals) produces SlagA
  and Acid1.
\<close>

definition g_scenario :: graph where
  "g_scenario =
     \<lparr>nodes = [company ''company_1'' ''SteelCo'' ''Steel'',
               company ''company_2'' ''ChemCo'' ''Chemicals'',
               company ''company_3'' ''SteelCo2'' ''Steel'',
               material ''waste_4'' ''SlagA'', material ''waste_5'' ''SlagB'',
               material ''waste_6'' ''Acid1''],
      rels = [link PRODUCES 0 3, link PRODUCES 0 4, link PRODUCES 1 3, link PRODUCES 1 5,
              link PRODUCES 2 3, link PRODUCES 2 4]\<rparr>"

text \<open>A produces and can upcycle m1 and produces m2; B produces m1.\<close>

definition g_dup :: graph where
  "g_dup =
     \<lparr>nodes = [company ''company_1'' ''A'' ''Steel'', company ''company_2'' ''B'' ''Chemicals'',
               material ''waste_3'' ''m1'', material ''waste_4'' ''m2''],
      rels = [link PRODUCES 0 2, link CAN_UPCYCLE 0 2, link PRODUCES 0 3, link PRODUCES 1 2]\<rparr>"

text \<open>Three companies produce m1; the third has no industry property.\<close>

definition g_null :: graph where
  "g_null =
     \<lparr>nodes = [company ''company_1'' ''A'' ''Steel'', company ''company_2'' ''B'' ''Chemicals'',
               \<lparr>labels = [Company], prop_id = Some (VStr ''company_3''), prop_name = Some ''C'',
                prop_industry = None\<rparr>,
               material ''waste_4'' ''m1''],
      rels = [link PRODUCES 0 3, link PRODUCES 1 3, link PRODUCES 2 3]\<rparr>"

text \<open>
  A has m1 and m2, B has m2, C has m3; two matches of an earlier run are still stored,
  A with B and A with C.
\<close>

definition g_stale :: graph where
  "g_stale =
     \<lparr>nodes = [company ''company_1'' ''A'' ''Steel'', company ''company_2'' ''B'' ''Chemicals'',
               company ''company_3'' ''C'' ''Textiles'',
               material ''waste_4'' ''m1'', material ''waste_5'' ''m2'',
               material ''waste_6'' ''m3''],
      rels = [link PRODUCES 0 3, potential_match 0 1 (9 / 10) 3 [''m1''] 1, link PRODUCES 0 4,
              link CAN_UPCYCLE 1 4, potential_match 0 2 (1 / 2) 1 [''m3''] 1,
              link PRODUCES 2 5]\<rparr>"

text \<open>Two companies share six materials.\<close>

definition g_six :: graph where
  "g_six =
     \<lparr>nodes = [company ''company_1'' ''A'' ''Steel'', company ''company_2'' ''B'' ''Chemicals'',
               material ''waste_3'' ''m1'', material ''waste_4'' ''m2'',
               material ''waste_5'' ''m3'', material ''waste_6'' ''m4'',
               material ''waste_7'' ''m5'', material ''waste_8'' ''m6''],
      rels = [link PRODUCES 0 2, link PRODUCES 0 3, link PRODUCES 0 4, link PRODUCES 0 5,
              link PRODUCES 0 6, link PRODUCES 0 7, link CAN_UPCYCLE 1 2, link CAN_UPCYCLE 1 3,
              link CAN_UPCYCLE 1 4, link CAN_UPCYCLE 1 5, link CAN_UPCYCLE 1 6,
              link CAN_UPCYCLE 1 7]\<rparr>"

text \<open>
  A has m1 to m8, B has m1 and m9, C has m1: the similarity of A and B is \<open>1/9\<close>, of
  A and C \<open>1/8\<close>, of B and C \<open>1/2\<close>.
\<close>

definition g_low :: graph where
  "g_low =
     \<lparr>nodes = [company ''company_1'' ''A'' ''Steel'', company ''company_2'' ''B'' ''Chemicals'',
               company ''company_3'' ''C'' ''Textiles'',
               material ''waste_4'' ''m1'', material ''waste_5'' ''m2'',
               material ''waste_6'' ''m3'', material ''waste_7'' ''m4'',
               material ''waste_8'' ''m5'', material ''waste_9'' ''m6'',
               material ''waste_10'' ''m7'', material ''waste_11'' ''m8'',
               material ''waste_12'' ''m9''],
      rels = [link PRODUCES 0 3, link PRODUCES 0 4, link PRODUCES 0 5, link PRODUCES 0 6,
              link PRODUCES 0 7, link PRODUCES 0 8, link PRODUCES 0 9, link PRODUCES 0 10,
              link PRODUCES 1 3, link PRODUCES 1 11, link CAN_UPCYCLE 2 3]\<rparr>"

text \<open>Two companies produce m1; the second has no industry property.\<close>

definition g_lonely :: graph where
  "g_lonely =
     \<lparr>nodes = [company ''company_1'' ''A'' ''Steel'',
               \<lparr>labels = [Company], prop_id = Some (VStr ''company_2''), prop_name = Some ''B'',
                prop_industry = None\<rparr>,
               material ''waste_3'' ''m1''],
      rels = [link PRODUCES 0 2, link PRODUCES 1 2]\<rparr>"

text \<open>A and B share m1; C and D are linked to no material.\<close>

definition g_idle :: graph where
  "g_idle =
     \<lparr>nodes = [company ''company_1'' ''A'' ''Steel'', company ''company_2'' ''B'' ''Chemicals'',
               company ''company_3'' ''C'' ''Textiles'', company ''company_4'' ''D'' ''Paper'',
               material ''waste_5'' ''m1''],
      rels = [link PRODUCES 0 4, link CAN_UPCYCLE 1 4]\<rparr>"

text \<open>Rows of the grouped query on these graphs.\<close>

definition slag_row :: row where
  "slag_row = \<lparr>c1 = 0, c2 = 1, shared = 1, sharedNames = [''SlagA''], c1Total = 2, c2Total = 2,
               jaccard = Fin (1 / 3)\<rparr>"

definition slag_row2 :: row where
  "slag_row2 = \<lparr>c1 = 1, c2 = 2, shared = 1, sharedNames = [''SlagA''], c1Total = 2, c2Total = 2,
                jaccard = Fin (1 / 3)\<rparr>"

definition low_row :: row where
  "low_row = \<lparr>c1 = 0, c2 = 1, shared = 1, sharedNames = [''m1''], c1Total = 8, c2Total = 2,
              jaccard = Fin (1 / 9)\<rparr>"

definition idle_row :: row where
  "idle_row = \<lparr>c1 = 0, c2 = 1, shared = 1, sharedNames = [''m1''], c1Total = 1, c2Total = 1,
               jaccard = Fin 1\<rparr>"

section \<open>The rows of the query\<close>

lemma cy_lt_asym: "cy_lt x y = Some True \<Longrightarrow> cy_lt y x \<noteq> Some True"
  by (induction x y rule: cy_lt.induct) auto

lemma cy_lt_irrefl: "cy_lt x x \<noteq> Some True"
  using cy_lt_asym by blast

lemma where_pair_neq: "where_pair g a b \<Longrightarrow> a \<noteq> b"
  using cy_lt_irrefl by (auto simp: where_pair_def)

lemma where_pair_asym: "where_pair g a b \<Longrightarrow> \<not> where_pair g b a"
  using cy_lt_asym by (auto simp: where_pair_def)

lemma in_profile_iff:
  "w \<in> profile g c \<longleftrightarrow>
     (\<exists>i<length (rels g). src (rels g ! i) = c \<and> tgt (rels g ! i) = w
        \<and> link_type (rtype (rels g ! i)) \<and> has_label g w WasteMaterial)"
  by (auto simp: profile_def links_def in_set_conv_nth image_iff)

lemma match_paths_iff:
  "(a, w, b) \<in> set (match_paths g) \<longleftrightarrow>
     (\<exists>i j. i < length (rels g) \<and> j < length (rels g) \<and> i \<noteq> j
        \<and> src (rels g ! i) = a \<and> tgt (rels g ! i) = w
        \<and> src (rels g ! j) = b \<and> tgt (rels g ! j) = w
        \<and> link_type (rtype (rels g ! i)) \<and> link_type (rtype (rels g ! j))
        \<and> has_label g a Company \<and> has_label g w WasteMaterial \<and> has_label g b Company)"
  (is "?L \<longleftrightarrow> ?R")
proof
  assume ?L
  then obtain i e1 j e2 where
    m: "(i, e1) \<in> set (enumerate 0 (rels g))" "(j, e2) \<in> set (enumerate 0 (rels g))"
    and c: "i \<noteq> j" "link_type (rtype e1)" "link_type (rtype e2)" "tgt e1 = tgt e2"
      "has_label g (src e1) Company" "has_label g (tgt e1) WasteMaterial"
      "has_label g (src e2) Company"
    and r: "a = src e1" "w = tgt e1" "b = src e2"
    unfolding match_paths_def by auto
  from m have "i < length (rels g)" "e1 = rels g ! i" "j < length (rels g)" "e2 = rels g ! j"
    by (simp_all add: in_set_enumerate_eq)
  with c r show ?R by (intro exI[of _ i] exI[of _ j]) simp
next
  assume ?R
  then obtain i j where
    b: "i < length (rels g)" "j < length (rels g)"
    and c: "i \<noteq> j" "src (rels g ! i) = a" "tgt (rels g ! i) = w"
      "src (rels g ! j) = b" "tgt (rels g ! j) = w"
      "link_type (rtype (rels g ! i))" "link_type (rtype (rels g ! j))"
      "has_label g a Company" "has_label g w WasteMaterial" "has_label g b Company"
    by blast
  from b have m: "(i, rels g ! i) \<in> set (enumerate 0 (rels g))"
      "(j, rels g ! j) \<in> set (enumerate 0 (rels g))"
    by (simp_all add: in_set_enumerate_eq)
  show ?L
    unfolding match_paths_def
    apply simp
    apply (rule bexI[OF _ m(1)])
    apply simp
    apply (rule bexI[OF _ m(2)])
    using c apply simp
    done
qed

lemma where_rows_iff:
  "(a, w, b) \<in> set (where_rows g) \<longleftrightarrow>
     has_label g a Company \<and> has_label g b Company \<and> where_pair g a b
     \<and> w \<in> profile g a \<and> w \<in> profile g b"
proof
  assume "(a, w, b) \<in> set (where_rows g)"
  then show "has_label g a Company \<and> has_label g b Company \<and> where_pair g a b
     \<and> w \<in> profile g a \<and> w \<in> profile g b"
    by (auto simp: where_rows_def match_paths_iff in_profile_iff)
next
  assume h: "has_label g a Company \<and> has_label g b Company \<and> where_pair g a b
     \<and> w \<in> profile g a \<and> w \<in> profile g b"
  then obtain i j where i: "i < length (rels g)" "src (rels g ! i) = a" "tgt (rels g ! i) = w"
      "link_type (rtype (rels g ! i))" "has_label g w WasteMaterial"
    and j: "j < length (rels g)" "src (rels g ! j) = b" "tgt (rels g ! j) = w"
      "link_type (rtype (rels g ! j))"
    by (auto simp: in_profile_iff)
  from h have "a \<noteq> b" using where_pair_neq by blast
  with i j have "i \<noteq> j" by auto
  with i j h have "(a, w, b) \<in> set (match_paths g)"
    unfolding match_paths_iff by blast
  with h show "(a, w, b) \<in> set (where_rows g)"
    by (simp add: where_rows_def)
qed

lemma group_ws_set:
  "set (group_ws (where_rows g) a b) = (if candidate g a b then profile g a \<inter> profile g b else {})"
proof -
  have "set (group_ws (where_rows g) a b) = {w. (a, w, b) \<in> set (where_rows g)}"
    by (force simp: group_ws_def)
  then show ?thesis
    by (auto simp: where_rows_iff candidate_def)
qed

lemma group_keys_iff:
  "(a, b) \<in> set (group_keys (where_rows g)) \<longleftrightarrow> candidate g a b"
proof -
  have "(a, b) \<in> set (group_keys (where_rows g)) \<longleftrightarrow> (\<exists>w. (a, w, b) \<in> set (where_rows g))"
    by (force simp: group_keys_def)
  then show ?thesis
    by (auto simp: where_rows_iff candidate_def)
qed

lemma distinct_group_keys: "distinct (group_keys rows)"
  by (simp add: group_keys_def)

lemma card_profile_le_total: "card (profile g c) \<le> links_total g c"
  unfolding profile_def links_total_def
  by (rule order_trans[OF card_image_le card_length]) simp

lemma card_inter_le1: "card (profile g a \<inter> profile g b) \<le> card (profile g a)"
  by (rule card_mono) (simp_all add: profile_def)

lemma card_inter_le2: "card (profile g a \<inter> profile g b) \<le> card (profile g b)"
  by (rule card_mono) (simp_all add: profile_def)

lemma candidate_shared_pos: "candidate g a b \<Longrightarrow> 0 < card (profile g a \<inter> profile g b)"
  by (simp add: candidate_def card_gt_0_iff profile_def)

lemma score_row_sel:
  "c1 (score_row g rows k) = fst k" "c2 (score_row g rows k) = snd k"
  "shared (score_row g rows k) = length (remdups (group_ws rows (fst k) (snd k)))"
  "c1Total (score_row g rows k) = links_total g (fst k)"
  "c2Total (score_row g rows k) = links_total g (snd k)"
  "jaccard (score_row g rows k) =
     fdiv (length (remdups (group_ws rows (fst k) (snd k))))
       (denominator (links_total g (fst k)) (links_total g (snd k))
          (length (remdups (group_ws rows (fst k) (snd k)))))"
  by (simp_all add: score_row_def Let_def)

lemma scored_rows_keys:
  "map (\<lambda>r. (c1 r, c2 r)) (scored_rows g) = group_keys (where_rows g)"
  by (simp add: scored_rows_def score_row_sel o_def)

lemma distinct_scored_keys: "distinct (map (\<lambda>r. (c1 r, c2 r)) (scored_rows g))"
  by (simp add: scored_rows_keys distinct_group_keys)

lemma scored_row_candidate:
  assumes "r \<in> set (scored_rows g)"
  shows "candidate g (c1 r) (c2 r)"
proof -
  from assms have "(c1 r, c2 r) \<in> set (map (\<lambda>r. (c1 r, c2 r)) (scored_rows g))"
    by force
  then show ?thesis
    by (simp add: scored_rows_keys group_keys_iff)
qed

lemma scored_row_shared:
  assumes "r \<in> set (scored_rows g)"
  shows "shared r = card (profile g (c1 r) \<inter> profile g (c2 r))"
proof -
  from assms obtain k where k: "r = score_row g (where_rows g) k"
    by (auto simp: scored_rows_def)
  have c: "candidate g (fst k) (snd k)"
    using scored_row_candidate[OF assms] by (simp add: k score_row_sel)
  have "shared r = card (set (group_ws (where_rows g) (fst k) (snd k)))"
    by (simp add: k score_row_sel card_set)
  with c show ?thesis
    by (simp add: group_ws_set k score_row_sel)
qed

lemma scored_row_totals:
  assumes "r \<in> set (scored_rows g)"
  shows "c1Total r = links_total g (c1 r)" "c2Total r = links_total g (c2 r)"
    "jaccard r = fdiv (shared r) (denominator (c1Total r) (c2Total r) (shared r))"
  using assms by (auto simp: scored_rows_def score_row_sel)

lemma scored_row_denominator:
  assumes "r \<in> set (scored_rows g)"
  shows "0 < denominator (c1Total r) (c2Total r) (shared r)"
proof -
  have "0 < shared r" "shared r \<le> c1Total r" "shared r \<le> c2Total r"
    using candidate_shared_pos[OF scored_row_candidate[OF assms]]
      card_inter_le1[of g "c1 r" "c2 r"] card_inter_le2[of g "c1 r" "c2 r"]
      card_profile_le_total[of g "c1 r"] card_profile_le_total[of g "c2 r"]
    by (simp_all add: scored_row_shared[OF assms] scored_row_totals[OF assms])
  then show ?thesis by (simp add: denominator_def)
qed

lemma scored_row_jaccard:
  assumes "r \<in> set (scored_rows g)"
  shows "jaccard r =
     Fin (of_nat (shared r) / of_int (denominator (c1Total r) (c2Total r) (shared r)))"
  using scored_row_denominator[OF assms] scored_row_totals(3)[OF assms]
  by (simp add: fdiv_def)

lemma merge_set_fresh:
  "\<not> (\<exists>e \<in> set rs. is_match r e) \<Longrightarrow> merge_set now (rs, n) r = (rs @ [new_edge now r], Suc n)"
  by (simp add: merge_set_def)

lemma foldl_merge_set:
  assumes "\<forall>e \<in> set rs0. rtype e \<noteq> POTENTIAL_MATCH"
    and "distinct (map (\<lambda>r. (c1 r, c2 r)) (dn @ rows))"
  shows "foldl (merge_set now) (rs0 @ map (new_edge now) dn, n) rows
           = (rs0 @ map (new_edge now) (dn @ rows), n + length rows)"
  using assms(2)
proof (induction rows arbitrary: dn n)
  case Nil
  then show ?case by simp
next
  case (Cons r rows)
  from Cons.prems have "\<forall>d \<in> set dn. (c1 d, c2 d) \<noteq> (c1 r, c2 r)"
    by (auto simp: image_iff)
  then have "\<forall>d \<in> set dn. \<not> is_match r (new_edge now d)"
    by (simp add: is_match_def new_edge_def)
  moreover have "\<forall>e \<in> set rs0. \<not> is_match r e"
    using assms(1) by (simp add: is_match_def)
  ultimately have "\<not> (\<exists>e \<in> set (rs0 @ map (new_edge now) dn). is_match r e)"
    by auto
  then have step: "merge_set now (rs0 @ map (new_edge now) dn, n) r
      = (rs0 @ map (new_edge now) (dn @ [r]), Suc n)"
    by (simp add: merge_set_fresh)
  from Cons.prems have "distinct (map (\<lambda>r. (c1 r, c2 r)) ((dn @ [r]) @ rows))"
    by simp
  from Cons.IH[OF this, of "Suc n"] step show ?case
    by simp
qed

lemma cleared_simps:
  "nodes (cleared g) = nodes g"
  "rels (cleared g) = filter (\<lambda>r. rtype r \<noteq> POTENTIAL_MATCH) (rels g)"
  by (simp_all add: cleared_def delete_matches_def)

lemma cleared_no_match: "\<forall>e \<in> set (rels (cleared g)). rtype e \<noteq> POTENTIAL_MATCH"
  by (simp add: cleared_simps)

lemma has_label_cleared: "has_label (cleared g) n l = has_label g n l"
  by (simp add: has_label_def cleared_simps)

lemma links_cleared: "links (cleared g) c = links g c"
  by (auto simp: links_def cleared_simps has_label_cleared link_type_def intro: filter_cong)

lemma profile_cleared: "profile (cleared g) c = profile g c"
  by (simp add: profile_def links_cleared)

lemma total_cleared: "links_total (cleared g) c = links_total g c"
  by (simp add: links_total_def links_cleared)

lemma where_pair_cleared: "where_pair (cleared g) a b = where_pair g a b"
  by (simp add: where_pair_def cleared_simps)

lemma candidate_cleared: "candidate (cleared g) a b = candidate g a b"
  by (simp add: candidate_def has_label_cleared where_pair_cleared profile_cleared)

lemma cleared_idem: "cleared (g\<lparr>rels := rels (cleared g) @ map (new_edge now) rows\<rparr>) = cleared g"
  by (simp add: cleared_def delete_matches_def new_edge_def o_def)

lemma cleared_update: "(cleared g)\<lparr>rels := X\<rparr> = g\<lparr>rels := X\<rparr>"
  by (simp add: cleared_def delete_matches_def)

lemma compute_matches_cleared:
  "compute_matches wfail now (cleared g) =
     (if \<exists>r \<in> set (retained (cleared g)). wfail (c1 r) (c2 r) then Inl Neo4jError
      else Inr (g\<lparr>rels := rels (cleared g) @ map (new_edge now) (retained (cleared g))\<rparr>,
                length (retained (cleared g))))"
proof -
  have d: "distinct (map (\<lambda>r. (c1 r, c2 r)) ([] @ retained (cleared g)))"
    using distinct_scored_keys[of "cleared g"]
    by (simp add: retained_def distinct_map_filter)
  have "foldl (merge_set now) (rels (cleared g), 0) (retained (cleared g))
      = (rels (cleared g) @ map (new_edge now) (retained (cleared g)),
         length (retained (cleared g)))"
    using foldl_merge_set[OF cleared_no_match d, where n = 0 and now = now] by simp
  then show ?thesis
    by (simp add: compute_matches_def Let_def cleared_update)
qed

lemma retained_scored: "r \<in> set (retained g) \<Longrightarrow> r \<in> set (scored_rows g)"
  by (simp add: retained_def)

lemma retained_threshold:
  assumes "r \<in> set (retained g)"
  shows "\<exists>q. jaccard r = Fin q \<and> JACCARD_THRESHOLD \<le> q"
  using assms scored_row_jaccard[of r g] by (auto simp: retained_def)

lemma retained_candidate:
  "r \<in> set (retained (cleared g)) \<Longrightarrow> candidate g (c1 r) (c2 r)"
  using scored_row_candidate[of r "cleared g"] by (simp add: retained_scored candidate_cleared)

lemma distinct_retained_keys: "distinct (map (\<lambda>r. (c1 r, c2 r)) (retained g))"
  using distinct_scored_keys[of g] by (simp add: retained_def distinct_map_filter)

lemma scored_row_unique:
  assumes "r \<in> set (scored_rows g)" "r' \<in> set (scored_rows g)" "c1 r' = c1 r" "c2 r' = c2 r"
  shows "r' = r"
proof -
  have "inj_on (\<lambda>r. (c1 r, c2 r)) (set (scored_rows g))"
    using distinct_scored_keys[of g] by (simp add: distinct_map)
  with assms show ?thesis by (auto dest: inj_onD)
qed

lemma new_edge_sel:
  "src (new_edge now r) = c1 r" "tgt (new_edge now r) = c2 r"
  "rtype (new_edge now r) = POTENTIAL_MATCH"
  "props (new_edge now r) = Some (new_props now r)"
  by (simp_all add: new_edge_def)

lemma new_props_sel:
  "score (new_props now r) = round3 (jaccard r)"
  "shared_materials (new_props now r) = shared r"
  "shared_names (new_props now r) = take 5 (sharedNames r)"
  "computed_at (new_props now r) = now"
  by (simp_all add: new_props_def)

lemma round3_threshold:
  assumes "JACCARD_THRESHOLD \<le> q"
  shows "JACCARD_THRESHOLD \<le> of_int (round (q * 1000)) / 1000"
proof -
  from assms have "(120::rat) \<le> q * 1000" by (simp add: JACCARD_THRESHOLD_def)
  then have "round (120::rat) \<le> round (q * 1000)" by (rule round_mono)
  moreover have "round (120::rat) = 120"
    using round_of_int[of 120, where ?'a = rat] by simp
  ultimately have "(120::int) \<le> round (q * 1000)" by simp
  then have "(120::rat) \<le> of_int (round (q * 1000))" by linarith
  then show ?thesis by (simp add: JACCARD_THRESHOLD_def)
qed

lemma jaccard_sets_commute: "jaccard_sets g a b = jaccard_sets g b a"
  by (simp add: jaccard_sets_def Int_commute add.commute)

lemma code_le_sets:
  assumes "r \<in> set (scored_rows g)" "jaccard r = Fin q"
  shows "q \<le> jaccard_sets g (c1 r) (c2 r)"
proof -
  let ?s = "card (profile g (c1 r) \<inter> profile g (c2 r))"
  let ?pa = "card (profile g (c1 r))" and ?pb = "card (profile g (c2 r))"
  have s: "shared r = ?s" by (rule scored_row_shared[OF assms(1)])
  have pos: "0 < ?s" using candidate_shared_pos[OF scored_row_candidate[OF assms(1)]] .
  have le: "?s \<le> ?pa" "?s \<le> ?pb" "?pa \<le> c1Total r" "?pb \<le> c2Total r"
    using card_inter_le1[of g "c1 r" "c2 r"] card_inter_le2[of g "c1 r" "c2 r"]
      card_profile_le_total[of g "c1 r"] card_profile_le_total[of g "c2 r"]
    by (simp_all add: scored_row_totals[OF assms(1)])
  have q: "q = of_nat ?s / of_int (denominator (c1Total r) (c2Total r) ?s)"
    using scored_row_jaccard[OF assms(1)] assms(2) by (simp add: s)
  define D' where "D' = int ?pa + int ?pb - int ?s"
  define D where "D = denominator (c1Total r) (c2Total r) ?s"
  have "0 < D'" "D' \<le> D"
    using pos le by (simp_all add: D'_def D_def denominator_def)
  then have w: "(0::rat) < of_int D'" "(of_int D' :: rat) \<le> of_int D"
    by simp_all
  have "(of_nat ?s :: rat) / of_int D \<le> of_nat ?s / of_int D'"
    by (rule frac_le[OF _ order_refl w]) simp
  moreover have "jaccard_sets g (c1 r) (c2 r) = of_nat ?s / of_int D'"
    by (simp add: jaccard_sets_def D'_def)
  ultimately show ?thesis by (simp add: q D_def)
qed

section \<open>The run as a whole\<close>

lemma deleted_count: "snd (delete_matches g) = length (matches g)"
  by (simp add: delete_matches_def matches_def)

lemma matches_cleared: "matches (cleared g) = []"
  by (simp add: matches_def cleared_simps)

lemma cleared_rels_update: "g\<lparr>rels := rels (cleared g)\<rparr> = cleared g"
  by (simp add: cleared_def delete_matches_def)

lemma matches_new_edges:
  "matches (g\<lparr>rels := rels (cleared g) @ map (new_edge now) rows\<rparr>) = map (new_edge now) rows"
  by (simp add: matches_def cleared_simps new_edge_def o_def)

lemma avg_None: "avg ss = None \<longleftrightarrow> ss = []"
  by (simp add: avg_def)

lemma scores_new_edges:
  "List.map_filter (\<lambda>e. map_option score (props e)) (map (new_edge now) rows)
     = map (\<lambda>r. round3 (jaccard r)) rows"
  by (induction rows) (simp_all add: List.map_filter_simps new_edge_sel new_props_sel)

lemma verify_new_edges:
  "verify_matches (g\<lparr>rels := rels (cleared g) @ map (new_edge now) rows\<rparr>)
     = (length rows, avg (map (\<lambda>r. round3 (jaccard r)) rows))"
  by (simp add: verify_matches_def matches_new_edges scores_new_edges)

lemma main_no_connection:
  "main False wfail now g = ([LogConnecting, CreateDriver, VerifyConnectivity], Inl Neo4jError, g)"
  by (simp add: main_def)

lemma main_write_failure:
  assumes "\<exists>r \<in> set (retained (cleared g)). wfail (c1 r) (c2 r)"
  shows "main True wfail now g =
     (trace_to_compute (length (matches g)) @ finally_block, Inl Neo4jError, cleared g)"
proof -
  obtain g1 d where dm: "delete_matches g = (g1, d)" by (cases "delete_matches g")
  then have g1: "g1 = cleared g" and d: "d = length (matches g)"
    using deleted_count[of g] by (simp_all add: cleared_def)
  show ?thesis
    using assms
    by (simp add: main_def dm g1 d compute_matches_cleared trace_to_compute_def)
qed

lemma main_no_match:
  assumes "retained (cleared g) = []"
  shows "main True wfail now g =
     (trace_to_compute (length (matches g)) @ [LogFound 0, LogVerifying, QueryVerify]
        @ finally_block,
      Inl TypeError, cleared g)"
proof -
  obtain g1 d where dm: "delete_matches g = (g1, d)" by (cases "delete_matches g")
  then have g1: "g1 = cleared g" and d: "d = length (matches g)"
    using deleted_count[of g] by (simp_all add: cleared_def)
  have v: "verify_matches (cleared g) = (0, None)"
    by (simp add: verify_matches_def matches_cleared List.map_filter_simps avg_def)
  show ?thesis
    by (simp add: main_def dm g1 d compute_matches_cleared assms cleared_rels_update v
        trace_to_compute_def)
qed

lemma main_success:
  assumes "\<not> (\<exists>r \<in> set (retained (cleared g)). wfail (c1 r) (c2 r))"
    and "retained (cleared g) \<noteq> []"
  shows "main True wfail now g =
     (trace_to_compute (length (matches g))
        @ [LogFound (length (retained (cleared g))),
           LogTop (min 10 (length (retained (cleared g)))),
           LogVerifying, QueryVerify, LogTotal (length (retained (cleared g))), LogComplete]
        @ finally_block,
      Inr (), g\<lparr>rels := rels (cleared g) @ map (new_edge now) (retained (cleared g))\<rparr>)"
proof -
  obtain g1 d where dm: "delete_matches g = (g1, d)" by (cases "delete_matches g")
  then have g1: "g1 = cleared g" and d: "d = length (matches g)"
    using deleted_count[of g] by (simp_all add: cleared_def)
  show ?thesis
    using assms
    by (simp add: main_def dm g1 d compute_matches_cleared verify_new_edges avg_None
        trace_to_compute_def)
qed

lemma script_exit_code:
  "exit_code (script e conn_ok wfail now g) = 0 \<longleftrightarrow>
     \<not> missing_env e \<and> conn_ok \<and> \<not> (\<exists>r \<in> set (retained (cleared g)). wfail (c1 r) (c2 r))
     \<and> retained (cleared g) \<noteq> []"
proof (cases "missing_env e")
  case True
  then show ?thesis by (simp add: script_def)
next
  case env: False
  show ?thesis
  proof (cases conn_ok)
    case False
    with env show ?thesis by (simp add: script_def main_no_connection)
  next
    case True
    show ?thesis
    proof (cases "\<exists>r \<in> set (retained (cleared g)). wfail (c1 r) (c2 r)")
      case True
      with env \<open>conn_ok\<close> show ?thesis by (simp add: script_def main_write_failure)
    next
      case nf: False
      show ?thesis
      proof (cases "retained (cleared g) = []")
        case True
        with env \<open>conn_ok\<close> show ?thesis by (simp add: script_def main_no_match)
      next
        case False
        with env \<open>conn_ok\<close> nf show ?thesis by (simp add: script_def main_success)
      qed
    qed
  qed
qed

lemma script_final:
  assumes "\<not> missing_env e" "conn_ok"
  shows "final (script e conn_ok wfail now g)
     = (if \<exists>r \<in> set (retained (cleared g)). wfail (c1 r) (c2 r) then cleared g
        else g\<lparr>rels := rels (cleared g) @ map (new_edge now) (retained (cleared g))\<rparr>)"
proof (cases "\<exists>r \<in> set (retained (cleared g)). wfail (c1 r) (c2 r)")
  case True
  with assms show ?thesis by (simp add: script_def main_write_failure)
next
  case nf: False
  show ?thesis
  proof (cases "retained (cleared g) = []")
    case True
    with assms nf show ?thesis by (simp add: script_def main_no_match cleared_rels_update)
  next
    case False
    with assms nf show ?thesis by (simp add: script_def main_success)
  qed
qed

lemma script_matches:
  assumes "\<not> missing_env e" "conn_ok"
  shows "matches (final (script e conn_ok wfail now g))
     = (if \<exists>r \<in> set (retained (cleared g)). wfail (c1 r) (c2 r) then []
        else map (new_edge now) (retained (cleared g)))"
  by (simp add: script_final[OF assms] matches_cleared matches_new_edges)

lemma script_trace_prefix:
  assumes "\<not> missing_env e" "conn_ok"
  shows "\<exists>post. trace (script e conn_ok wfail now g)
     = trace_to_compute (length (matches g)) @ post"
proof (cases "\<exists>r \<in> set (retained (cleared g)). wfail (c1 r) (c2 r)")
  case True
  with assms show ?thesis by (simp add: script_def main_write_failure)
next
  case nf: False
  show ?thesis
  proof (cases "retained (cleared g) = []")
    case True
    with assms nf show ?thesis by (simp add: script_def main_no_match)
  next
    case False
    with assms nf show ?thesis by (simp add: script_def main_success)
  qed
qed

lemma match_edge:
  assumes "\<not> missing_env e" "conn_ok"
    and "x \<in> set (matches (final (script e conn_ok wfail now g)))"
  shows "\<exists>r \<in> set (retained (cleared g)). x = new_edge now r"
  using assms(3) by (auto simp: script_matches[OF assms(1,2)] split: if_splits)

lemma match_edge_between:
  assumes "\<not> missing_env e" "conn_ok"
    and "x \<in> set (matches (final (script e conn_ok wfail now g)))" "between a b x"
  shows "candidate g a b \<or> candidate g b a"
proof -
  from match_edge[OF assms(1,2,3)] obtain r where
    r: "r \<in> set (retained (cleared g))" "x = new_edge now r" by blast
  from retained_candidate[OF r(1)] assms(4) show ?thesis
    by (auto simp: between_def r(2) new_edge_sel)
qed

lemma distinct_filter_le1:
  assumes "distinct (map f xs)" "\<forall>x \<in> set xs. \<forall>y \<in> set xs. P x \<and> P y \<longrightarrow> f x = f y"
  shows "length (filter P xs) \<le> 1"
  using assms
proof (induction xs)
  case Nil
  then show ?case by simp
next
  case (Cons x xs)
  have d: "distinct (map f xs)" and nx: "f x \<notin> f ` set xs"
    using Cons.prems(1) by simp_all
  have p: "\<forall>u \<in> set xs. \<forall>v \<in> set xs. P u \<and> P v \<longrightarrow> f u = f v"
    using Cons.prems(2) by (blast intro: list.set_intros)
  have IH: "length (filter P xs) \<le> 1"
    by (rule Cons.IH[OF d p])
  show ?case
  proof (cases "P x")
    case True
    have "\<forall>y \<in> set xs. \<not> P y"
    proof (intro ballI notI)
      fix y assume y: "y \<in> set xs" "P y"
      with Cons.prems(2) True have "f x = f y" by (blast intro: list.set_intros)
      with nx y(1) show False by blast
    qed
    then have "filter P xs = []" by (simp add: filter_empty_conv)
    with True show ?thesis by simp
  next
    case False
    with IH show ?thesis by simp
  qed
qed

lemma cy_neq_True:
  "cy_neq x y = Some True \<longleftrightarrow> (\<exists>i j. x = Some i \<and> y = Some j \<and> i \<noteq> j)"
  by (cases x; cases y; simp)

lemma match_tuple_new_edge:
  "match_tuple (new_edge now r) = (c1 r, c2 r, Some (round3 (jaccard r)), Some (shared r))"
  by (simp add: match_tuple_def new_edge_sel new_props_sel)

section \<open>The claims\<close>

text \<open>
  The theorems below are about runs that reach the database: the environment is
  complete and the connection is verified. \<open>wfail\<close>, \<open>now\<close> and the graph are arbitrary.
\<close>

subsection \<open>C1: the stored score\<close>

text \<open>
  Two runs in which no company is linked to a material twice. The stored score is the
  similarity of the profiles rounded to three decimal places: \<open>0.5\<close> for the profiles
  \<open>{m1, m2, m3}\<close> and \<open>{m2, m3, m4}\<close>, \<open>0.333\<close> for \<open>{SlagA, SlagB}\<close> and
  \<open>{SlagA, Acid1}\<close>.
\<close>

lemma half_profiles_example:
  "profile g_half 0 = {2, 3, 4} \<and> profile g_half 1 = {3, 4, 5}
   \<and> jaccard_sets g_half 0 1 = 1 / 2
   \<and> matches (final (script env_ok True no_fail 7 g_half))
       = [potential_match 0 1 (1 / 2) 2 [''m2'', ''m3''] 7]"
  by code_simp

lemma rounded_score_example:
  "matches (final (script env_ok True no_fail 0 g_scenario))
     = [potential_match 0 1 (333 / 1000) 1 [''SlagA''] 0,
        potential_match 1 2 (333 / 1000) 1 [''SlagA''] 0]
   \<and> jaccard_sets g_scenario 0 1 = 1 / 3
   \<and> round3 (Fin (jaccard_sets g_scenario 0 1)) = Fin (333 / 1000)"
  by code_simp

text \<open>
  Claim C1: the stored score is \<open>|P(A) \<inter> P(B)| / (|P(A)| + |P(B)| - |P(A) \<inter> P(B)|)\<close> over
  the profiles as sets, without duplicate materials even when a company is linked to the
  same material by both relationship types. The run below does not bear that out.
  A produces and can upcycle m1 and produces m2; B produces m1. The profiles are
  \<open>{m1, m2}\<close> and \<open>{m1}\<close>, one material is shared, the similarity is \<open>1/2\<close>. The query
  takes \<open>c1Total\<close> as the size of a pattern comprehension, which has one element per
  relationship: three for A. Its quotient is \<open>1 / (3 + 1 - 1)\<close> and the stored score is
  \<open>0.333\<close>, not \<open>0.5\<close>.
\<close>

theorem duplicate_link_score:
  "links g_dup 0 = [link PRODUCES 0 2, link CAN_UPCYCLE 0 2, link PRODUCES 0 3]
   \<and> profile g_dup 0 = {2, 3} \<and> profile g_dup 1 = {2}
   \<and> jaccard_sets g_dup 0 1 = 1 / 2
   \<and> round3 (Fin (jaccard_sets g_dup 0 1)) = Fin (1 / 2)
   \<and> scored_rows (cleared g_dup)
       = [\<lparr>c1 = 0, c2 = 1, shared = 1, sharedNames = [''m1''], c1Total = 3, c2Total = 1,
           jaccard = Fin (1 / 3)\<rparr>]
   \<and> matches (final (script env_ok True no_fail 0 g_dup))
       = [potential_match 0 1 (333 / 1000) 1 [''m1''] 0]
   \<and> Fin (333 / 1000) \<noteq> Fin (1 / 2)"
  by code_simp

subsection \<open>C2: the threshold\<close>

text \<open>
  Claim C2. Every \<open>POTENTIAL_MATCH\<close> relationship persisted by a run has a score of at
  least \<open>0.12\<close>; for every pair of companies whose Jaccard similarity is below the
  threshold no relationship is written, in either direction; and no row of the query
  whose computed similarity is below the threshold is written.
\<close>

theorem threshold_invariant:
  assumes "\<not> missing_env e" "conn_ok"
  shows "(\<forall>x \<in> set (matches (final (script e conn_ok wfail now g))).
            \<exists>p q. props x = Some p \<and> score p = Fin q \<and> JACCARD_THRESHOLD \<le> q)
    \<and> (\<forall>a b. jaccard_sets g a b < JACCARD_THRESHOLD \<longrightarrow>
          \<not> (\<exists>x \<in> set (matches (final (script e conn_ok wfail now g))). between a b x))
    \<and> (\<forall>r \<in> set (scored_rows (cleared g)). \<not> ge_float (jaccard r) JACCARD_THRESHOLD \<longrightarrow>
          \<not> (\<exists>x \<in> set (matches (final (script e conn_ok wfail now g))).
                 src x = c1 r \<and> tgt x = c2 r))"
proof (intro conjI ballI allI impI notI)
  fix x assume "x \<in> set (matches (final (script e conn_ok wfail now g)))"
  from match_edge[OF assms this] obtain r where
    r: "r \<in> set (retained (cleared g))" "x = new_edge now r" by blast
  from retained_threshold[OF r(1)] obtain q where q: "jaccard r = Fin q" "JACCARD_THRESHOLD \<le> q"
    by blast
  have "props x = Some (new_props now r)"
    "score (new_props now r) = Fin (of_int (round (q * 1000)) / 1000)"
    by (simp_all add: r(2) new_edge_sel new_props_sel q(1))
  with round3_threshold[OF q(2)]
  show "\<exists>p q. props x = Some p \<and> score p = Fin q \<and> JACCARD_THRESHOLD \<le> q"
    by blast
next
  fix a b assume low: "jaccard_sets g a b < JACCARD_THRESHOLD"
    and "\<exists>x \<in> set (matches (final (script e conn_ok wfail now g))). between a b x"
  then obtain x where x: "x \<in> set (matches (final (script e conn_ok wfail now g)))" "between a b x"
    by blast
  from match_edge[OF assms x(1)] obtain r where
    r: "r \<in> set (retained (cleared g))" "x = new_edge now r" by blast
  from retained_threshold[OF r(1)] obtain q where q: "jaccard r = Fin q" "JACCARD_THRESHOLD \<le> q"
    by blast
  from code_le_sets[OF retained_scored[OF r(1)] q(1)]
  have "q \<le> jaccard_sets g (c1 r) (c2 r)"
    by (simp add: jaccard_sets_def profile_cleared)
  moreover from x(2) have "jaccard_sets g (c1 r) (c2 r) = jaccard_sets g a b"
    using jaccard_sets_commute[of g a b] by (auto simp: between_def r(2) new_edge_sel)
  ultimately show False using q(2) low by simp
next
  fix r assume r: "r \<in> set (scored_rows (cleared g))"
    and no: "\<not> ge_float (jaccard r) JACCARD_THRESHOLD"
    and "\<exists>x \<in> set (matches (final (script e conn_ok wfail now g))). src x = c1 r \<and> tgt x = c2 r"
  then obtain x where x: "x \<in> set (matches (final (script e conn_ok wfail now g)))"
    "src x = c1 r" "tgt x = c2 r" by blast
  from match_edge[OF assms x(1)] obtain r' where
    r': "r' \<in> set (retained (cleared g))" "x = new_edge now r'" by blast
  from x(2,3) have "c1 r' = c1 r" "c2 r' = c2 r" by (simp_all add: r'(2) new_edge_sel)
  from scored_row_unique[OF r retained_scored[OF r'(1)] this] r'(1) no
  show False by (simp add: retained_def)
qed

text \<open>
  On a graph where A and B have similarity \<open>1/9\<close>, A and C \<open>1/8\<close>, B and C \<open>1/2\<close>: the
  relationship of A and C is stored with a score above the threshold, none is stored
  for A and B.
\<close>

theorem threshold_invariant_witness:
  "\<not> missing_env env_ok \<and> True
   \<and> potential_match 0 2 (1 / 8) 1 [''m1''] 0
        \<in> set (matches (final (script env_ok True no_fail 0 g_low)))
   \<and> jaccard_sets g_low 0 1 < JACCARD_THRESHOLD
   \<and> low_row \<in> set (scored_rows (cleared g_low))
   \<and> \<not> ge_float (jaccard low_row) JACCARD_THRESHOLD
   \<and> (\<exists>p q. props (potential_match 0 2 (1 / 8) 1 [''m1''] 0) = Some p \<and> score p = Fin q
          \<and> JACCARD_THRESHOLD \<le> q)
   \<and> \<not> (\<exists>x \<in> set (matches (final (script env_ok True no_fail 0 g_low))). between 0 1 x)
   \<and> \<not> (\<exists>x \<in> set (matches (final (script env_ok True no_fail 0 g_low))).
            src x = c1 low_row \<and> tgt x = c2 low_row)"
proof -
  have e: "\<not> missing_env env_ok"
    by code_simp
  have m: "potential_match 0 2 (1 / 8) 1 [''m1''] 0
        \<in> set (matches (final (script env_ok True no_fail 0 g_low)))"
    by code_simp
  have j: "jaccard_sets g_low 0 1 < JACCARD_THRESHOLD"
    by code_simp
  have r: "low_row \<in> set (scored_rows (cleared g_low))"
    by code_simp
  have n: "\<not> ge_float (jaccard low_row) JACCARD_THRESHOLD"
    by code_simp
  note T = threshold_invariant[OF e TrueI, of no_fail 0 g_low]
  from T m have t1: "\<exists>p q. props (potential_match 0 2 (1 / 8) 1 [''m1''] 0) = Some p
      \<and> score p = Fin q \<and> JACCARD_THRESHOLD \<le> q"
    by blast
  from T j have t2: "\<not> (\<exists>x \<in> set (matches (final (script env_ok True no_fail 0 g_low))).
      between 0 1 x)"
    by blast
  from T r n have t3: "\<not> (\<exists>x \<in> set (matches (final (script env_ok True no_fail 0 g_low))).
      src x = c1 low_row \<and> tgt x = c2 low_row)"
    by blast
  show ?thesis
    by (rule conjI[OF e conjI[OF TrueI conjI[OF m conjI[OF j conjI[OF r conjI[OF n
          conjI[OF t1 conjI[OF t2 t3]]]]]]]])
qed

subsection \<open>C3: one relationship per unordered pair\<close>

lemma cy_lt_total:
  assumes "x \<noteq> y" "cy_lt x y \<noteq> None"
  shows "cy_lt x y = Some True \<or> cy_lt y x = Some True"
  using assms by (induction x y rule: cy_lt.induct) auto

lemma candidate_either:
  assumes "has_label g a Company" "has_label g b Company"
    and "prop_id (nodes g ! a) \<noteq> prop_id (nodes g ! b)"
    and "cy_lt (prop_id (nodes g ! a)) (prop_id (nodes g ! b)) \<noteq> None"
    and "cy_neq (prop_industry (nodes g ! a)) (prop_industry (nodes g ! b)) = Some True"
    and "profile g a \<inter> profile g b \<noteq> {}"
  shows "candidate g a b \<or> candidate g b a"
proof -
  from assms(5) have "cy_neq (prop_industry (nodes g ! b)) (prop_industry (nodes g ! a)) = Some True"
    by (auto simp: cy_neq_True)
  moreover from assms(6) have "profile g b \<inter> profile g a \<noteq> {}"
    by (simp add: Int_commute)
  ultimately show ?thesis
    using cy_lt_total[OF assms(3,4)] assms(1,2,5,6)
    by (auto simp: candidate_def where_pair_def)
qed

text \<open>
  Claim C3. After a run there is at most one \<open>POTENTIAL_MATCH\<close> relationship for the
  unordered pair of companies A and B, never both directions; every stored relationship
  runs from the smaller to the larger \<open>id\<close>; the grouped query has one row per ordered
  pair and never a row for the mirrored pair; and two companies of different industries
  that share a material and have distinct, comparable \<open>id\<close>s are scored exactly once.
\<close>

theorem one_edge_per_pair:
  assumes "\<not> missing_env e" "conn_ok"
  shows "length (filter (between a b) (matches (final (script e conn_ok wfail now g)))) \<le> 1
    \<and> (\<forall>x \<in> set (matches (final (script e conn_ok wfail now g))).
          cy_lt (prop_id (nodes g ! src x)) (prop_id (nodes g ! tgt x)) = Some True)
    \<and> distinct (map (\<lambda>r. (c1 r, c2 r)) (scored_rows (cleared g)))
    \<and> (\<forall>r \<in> set (scored_rows (cleared g)). \<forall>r' \<in> set (scored_rows (cleared g)).
          \<not> (c1 r' = c2 r \<and> c2 r' = c1 r))
    \<and> (has_label g a Company \<and> has_label g b Company
          \<and> prop_id (nodes g ! a) \<noteq> prop_id (nodes g ! b)
          \<and> cy_lt (prop_id (nodes g ! a)) (prop_id (nodes g ! b)) \<noteq> None
          \<and> cy_neq (prop_industry (nodes g ! a)) (prop_industry (nodes g ! b)) = Some True
          \<and> profile g a \<inter> profile g b \<noteq> {}
        \<longrightarrow> length (filter (\<lambda>r. (c1 r = a \<and> c2 r = b) \<or> (c1 r = b \<and> c2 r = a))
                      (scored_rows (cleared g))) = 1)"
proof -
  let ?rows = "retained (cleared g)"
  let ?ms = "matches (final (script e conn_ok wfail now g))"
  let ?P = "\<lambda>r. (c1 r = a \<and> c2 r = b) \<or> (c1 r = b \<and> c2 r = a)"
  have once: "has_label g a Company \<and> has_label g b Company
          \<and> prop_id (nodes g ! a) \<noteq> prop_id (nodes g ! b)
          \<and> cy_lt (prop_id (nodes g ! a)) (prop_id (nodes g ! b)) \<noteq> None
          \<and> cy_neq (prop_industry (nodes g ! a)) (prop_industry (nodes g ! b)) = Some True
          \<and> profile g a \<inter> profile g b \<noteq> {}
        \<longrightarrow> length (filter ?P (scored_rows (cleared g))) = 1"
  proof
    assume h: "has_label g a Company \<and> has_label g b Company
          \<and> prop_id (nodes g ! a) \<noteq> prop_id (nodes g ! b)
          \<and> cy_lt (prop_id (nodes g ! a)) (prop_id (nodes g ! b)) \<noteq> None
          \<and> cy_neq (prop_industry (nodes g ! a)) (prop_industry (nodes g ! b)) = Some True
          \<and> profile g a \<inter> profile g b \<noteq> {}"
    then have "candidate g a b \<or> candidate g b a"
      by (intro candidate_either) simp_all
    then have "(a, b) \<in> set (map (\<lambda>r. (c1 r, c2 r)) (scored_rows (cleared g)))
        \<or> (b, a) \<in> set (map (\<lambda>r. (c1 r, c2 r)) (scored_rows (cleared g)))"
      by (simp only: scored_rows_keys group_keys_iff candidate_cleared)
    then obtain r where "r \<in> set (scored_rows (cleared g))" "?P r"
      by auto
    then have "filter ?P (scored_rows (cleared g)) \<noteq> []"
      by (auto simp: filter_empty_conv)
    then have ge: "1 \<le> length (filter ?P (scored_rows (cleared g)))"
      by (cases "filter ?P (scored_rows (cleared g))") simp_all
    have eq: "\<forall>r \<in> set (scored_rows (cleared g)). \<forall>r' \<in> set (scored_rows (cleared g)).
        ?P r \<and> ?P r' \<longrightarrow> (c1 r, c2 r) = (c1 r', c2 r')"
    proof (intro ballI impI)
      fix r r' assume r: "r \<in> set (scored_rows (cleared g))" "r' \<in> set (scored_rows (cleared g))"
        and b: "?P r \<and> ?P r'"
      have "candidate g (c1 r) (c2 r)" "candidate g (c1 r') (c2 r')"
        using scored_row_candidate[OF r(1)] scored_row_candidate[OF r(2)]
        by (simp_all only: candidate_cleared)
      then have "where_pair g (c1 r) (c2 r)" "where_pair g (c1 r') (c2 r')"
        by (simp_all add: candidate_def)
      with where_pair_asym[of g a b] where_pair_asym[of g b a] b
      show "(c1 r, c2 r) = (c1 r', c2 r')"
        by auto
    qed
    have "length (filter ?P (scored_rows (cleared g))) \<le> 1"
      by (rule distinct_filter_le1[OF distinct_scored_keys eq])
    with ge show "length (filter ?P (scored_rows (cleared g))) = 1"
      by simp
  qed
  have m: "?ms = [] \<or> ?ms = map (new_edge now) ?rows"
    by (simp add: script_matches[OF assms])
  have cand: "\<And>r. r \<in> set ?rows \<Longrightarrow> where_pair g (c1 r) (c2 r)"
    using retained_candidate by (simp add: candidate_def)
  have same: "\<forall>r \<in> set ?rows. \<forall>r' \<in> set ?rows.
      (between a b \<circ> new_edge now) r \<and> (between a b \<circ> new_edge now) r'
        \<longrightarrow> (c1 r, c2 r) = (c1 r', c2 r')"
  proof (intro ballI impI)
    fix r r' assume r: "r \<in> set ?rows" "r' \<in> set ?rows"
      and b: "(between a b \<circ> new_edge now) r \<and> (between a b \<circ> new_edge now) r'"
    from b have b': "(c1 r = a \<and> c2 r = b) \<or> (c1 r = b \<and> c2 r = a)"
      "(c1 r' = a \<and> c2 r' = b) \<or> (c1 r' = b \<and> c2 r' = a)"
      by (simp_all add: between_def new_edge_sel)
    from cand[OF r(1)] cand[OF r(2)] where_pair_asym[of g a b] where_pair_asym[of g b a] b'
    show "(c1 r, c2 r) = (c1 r', c2 r')"
      by auto
  qed
  have "length (filter (between a b \<circ> new_edge now) ?rows) \<le> 1"
    by (rule distinct_filter_le1[OF distinct_retained_keys same])
  then have "length (filter (between a b) (map (new_edge now) ?rows)) \<le> 1"
    by (simp add: filter_map)
  with m have one: "length (filter (between a b) ?ms) \<le> 1"
    by auto
  have dir: "\<forall>x \<in> set ?ms.
          cy_lt (prop_id (nodes g ! src x)) (prop_id (nodes g ! tgt x)) = Some True"
  proof
    fix x assume "x \<in> set ?ms"
    from match_edge[OF assms this] obtain r where
      r: "r \<in> set ?rows" "x = new_edge now r" by blast
    from cand[OF r(1)]
    show "cy_lt (prop_id (nodes g ! src x)) (prop_id (nodes g ! tgt x)) = Some True"
      by (simp add: r(2) new_edge_sel where_pair_def)
  qed
  have mirror: "\<forall>r \<in> set (scored_rows (cleared g)). \<forall>r' \<in> set (scored_rows (cleared g)).
          \<not> (c1 r' = c2 r \<and> c2 r' = c1 r)"
  proof (intro ballI notI)
    fix r r' assume "r \<in> set (scored_rows (cleared g))" "r' \<in> set (scored_rows (cleared g))"
      and "c1 r' = c2 r \<and> c2 r' = c1 r"
    with scored_row_candidate[of r "cleared g"] scored_row_candidate[of r' "cleared g"]
      where_pair_asym[of "cleared g" "c1 r" "c2 r"]
    show False by (simp add: candidate_def)
  qed
  from one dir distinct_scored_keys[of "cleared g"] mirror once show ?thesis
    by (intro conjI)
qed

text \<open>On the three-company scenario, for SteelCo and ChemCo.\<close>

theorem one_edge_per_pair_witness:
  "\<not> missing_env env_ok \<and> True
   \<and> potential_match 0 1 (333 / 1000) 1 [''SlagA''] 0
        \<in> set (matches (final (script env_ok True no_fail 0 g_scenario)))
   \<and> slag_row \<in> set (scored_rows (cleared g_scenario))
   \<and> slag_row2 \<in> set (scored_rows (cleared g_scenario))
   \<and> length (filter (between 0 1) (matches (final (script env_ok True no_fail 0 g_scenario)))) \<le> 1
   \<and> cy_lt (prop_id (nodes g_scenario ! src (potential_match 0 1 (333 / 1000) 1 [''SlagA''] 0)))
        (prop_id (nodes g_scenario ! tgt (potential_match 0 1 (333 / 1000) 1 [''SlagA''] 0)))
       = Some True
   \<and> distinct (map (\<lambda>r. (c1 r, c2 r)) (scored_rows (cleared g_scenario)))
   \<and> \<not> (c1 slag_row2 = c2 slag_row \<and> c2 slag_row2 = c1 slag_row)
   \<and> (has_label g_scenario 0 Company \<and> has_label g_scenario 1 Company
          \<and> prop_id (nodes g_scenario ! 0) \<noteq> prop_id (nodes g_scenario ! 1)
          \<and> cy_lt (prop_id (nodes g_scenario ! 0)) (prop_id (nodes g_scenario ! 1)) \<noteq> None
          \<and> cy_neq (prop_industry (nodes g_scenario ! 0)) (prop_industry (nodes g_scenario ! 1))
                = Some True
          \<and> profile g_scenario 0 \<inter> profile g_scenario 1 \<noteq> {})
   \<and> length (filter (\<lambda>r. (c1 r = 0 \<and> c2 r = 1) \<or> (c1 r = 1 \<and> c2 r = 0))
                      (scored_rows (cleared g_scenario))) = 1"
proof -
  have c: "has_label g_scenario 0 Company \<and> has_label g_scenario 1 Company
          \<and> prop_id (nodes g_scenario ! 0) \<noteq> prop_id (nodes g_scenario ! 1)
          \<and> cy_lt (prop_id (nodes g_scenario ! 0)) (prop_id (nodes g_scenario ! 1)) \<noteq> None
          \<and> cy_neq (prop_industry (nodes g_scenario ! 0)) (prop_industry (nodes g_scenario ! 1))
                = Some True
          \<and> profile g_scenario 0 \<inter> profile g_scenario 1 \<noteq> {}"
    by code_simp
  have e: "\<not> missing_env env_ok"
    by code_simp
  have m: "potential_match 0 1 (333 / 1000) 1 [''SlagA''] 0
        \<in> set (matches (final (script env_ok True no_fail 0 g_scenario)))"
    by code_simp
  have r1: "slag_row \<in> set (scored_rows (cleared g_scenario))"
    by code_simp
  have r2: "slag_row2 \<in> set (scored_rows (cleared g_scenario))"
    by code_simp
  note T = one_edge_per_pair[OF e TrueI, of 0 1 no_fail 0 g_scenario]
  from T have t1: "length (filter (between 0 1)
      (matches (final (script env_ok True no_fail 0 g_scenario)))) \<le> 1"
    by (rule conjunct1)
  from T m have t2: "cy_lt
      (prop_id (nodes g_scenario ! src (potential_match 0 1 (333 / 1000) 1 [''SlagA''] 0)))
      (prop_id (nodes g_scenario ! tgt (potential_match 0 1 (333 / 1000) 1 [''SlagA''] 0)))
       = Some True"
    by blast
  from T have t3: "distinct (map (\<lambda>r. (c1 r, c2 r)) (scored_rows (cleared g_scenario)))"
    by blast
  from T r1 r2 have t4: "\<not> (c1 slag_row2 = c2 slag_row \<and> c2 slag_row2 = c1 slag_row)"
    by blast
  from T c have t5: "length (filter (\<lambda>r. (c1 r = 0 \<and> c2 r = 1) \<or> (c1 r = 1 \<and> c2 r = 0))
                      (scored_rows (cleared g_scenario))) = 1"
    by blast
  show ?thesis
    by (rule conjI[OF e conjI[OF TrueI conjI[OF m conjI[OF r1 conjI[OF r2 conjI[OF t1
          conjI[OF t2 conjI[OF t3 conjI[OF t4 conjI[OF c t5]]]]]]]]]])
qed

subsection \<open>C4: industries\<close>

text \<open>
  The filter \<open>c1.industry <> c2.industry\<close>: the companies of every stored relationship
  have industries, and they differ; a pair with a company without industry gets no
  relationship.
\<close>

lemma match_industries_differ:
  assumes "\<not> missing_env e" "conn_ok"
  shows "(\<forall>x \<in> set (matches (final (script e conn_ok wfail now g))).
          \<exists>i j. prop_industry (nodes g ! src x) = Some i
               \<and> prop_industry (nodes g ! tgt x) = Some j \<and> i \<noteq> j)
    \<and> (\<forall>a b. prop_industry (nodes g ! a) = None \<or> prop_industry (nodes g ! b) = None \<longrightarrow>
          \<not> (\<exists>x \<in> set (matches (final (script e conn_ok wfail now g))). between a b x))"
proof -
  have ind: "\<And>a b. candidate g a b \<Longrightarrow>
      \<exists>i j. prop_industry (nodes g ! a) = Some i \<and> prop_industry (nodes g ! b) = Some j \<and> i \<noteq> j"
    by (simp add: candidate_def where_pair_def cy_neq_True)
  have p1: "\<forall>x \<in> set (matches (final (script e conn_ok wfail now g))).
          \<exists>i j. prop_industry (nodes g ! src x) = Some i
               \<and> prop_industry (nodes g ! tgt x) = Some j \<and> i \<noteq> j"
  proof
    fix x assume "x \<in> set (matches (final (script e conn_ok wfail now g)))"
    from match_edge[OF assms this] obtain r where
      r: "r \<in> set (retained (cleared g))" "x = new_edge now r" by blast
    from ind[OF retained_candidate[OF r(1)]]
    show "\<exists>i j. prop_industry (nodes g ! src x) = Some i
               \<and> prop_industry (nodes g ! tgt x) = Some j \<and> i \<noteq> j"
      by (simp add: r(2) new_edge_sel)
  qed
  have p2: "\<forall>a b. prop_industry (nodes g ! a) = None \<or> prop_industry (nodes g ! b) = None \<longrightarrow>
          \<not> (\<exists>x \<in> set (matches (final (script e conn_ok wfail now g))). between a b x)"
  proof (intro allI impI notI)
    fix a b assume n: "prop_industry (nodes g ! a) = None \<or> prop_industry (nodes g ! b) = None"
      and "\<exists>x \<in> set (matches (final (script e conn_ok wfail now g))). between a b x"
    then obtain x where "x \<in> set (matches (final (script e conn_ok wfail now g)))" "between a b x"
      by blast
    from match_edge_between[OF assms this] have "candidate g a b \<or> candidate g b a" .
    with ind[of a b] ind[of b a] n show False by auto
  qed
  from p1 p2 show ?thesis by blast
qed

text \<open>
  Claim C4: the companies of every stored relationship have industries that differ, and
  a pair with a missing industry is excluded from matching without crashing the run.
  The run below does not bear the last part out. Two companies produce m1 and the second
  has no industry. The pair is excluded and nothing is stored; the third statement then
  returns \<open>avgScore = null\<close>, the last console line calls \<open>null.toNumber()\<close>, and the
  process ends with \<open>FATAL\<close> and exit code 1.
\<close>

theorem missing_industry_run:
  "prop_industry (nodes g_lonely ! 1) = None
   \<and> scored_rows (cleared g_lonely) = []
   \<and> matches (final (script env_ok True no_fail 0 g_lonely)) = []
   \<and> verify_matches (final (script env_ok True no_fail 0 g_lonely)) = (0, None)
   \<and> exit_code (script env_ok True no_fail 0 g_lonely) = 1
   \<and> trace (script env_ok True no_fail 0 g_lonely)
       = [LogConnecting, CreateDriver, VerifyConnectivity, LogConnected, OpenSession,
          LogClearing, QueryDelete, LogRemoved 0, LogComputing, QueryCompute, LogFound 0,
          LogVerifying, QueryVerify, CloseSession, CloseDriver, LogClosed, ErrFatal]"
  by code_simp

subsection \<open>C5: wipe before write\<close>

text \<open>
  Claim C5. The first statement deletes every \<open>POTENTIAL_MATCH\<close> relationship before the
  second statement is sent; what is stored after the run are exactly the relationships
  the second statement creates on the graph without the old ones (none, when the
  statement fails). So a pair that no longer shares a material has no relationship
  after the run, whatever was stored for it before.
\<close>

theorem wipe_before_write:
  assumes "\<not> missing_env e" "conn_ok"
  shows "matches (cleared g) = []
    \<and> matches (final (script e conn_ok wfail now g))
        = (if \<exists>r \<in> set (retained (cleared g)). wfail (c1 r) (c2 r) then []
           else map (new_edge now) (retained (cleared g)))
    \<and> (\<exists>post. trace (script e conn_ok wfail now g)
          = trace_to_compute (length (matches g)) @ post)
    \<and> (\<forall>a b. profile g a \<inter> profile g b = {} \<longrightarrow>
          \<not> (\<exists>x \<in> set (matches (final (script e conn_ok wfail now g))). between a b x))"
proof -
  have "\<forall>a b. profile g a \<inter> profile g b = {} \<longrightarrow>
          \<not> (\<exists>x \<in> set (matches (final (script e conn_ok wfail now g))). between a b x)"
  proof (intro allI impI notI)
    fix a b assume n: "profile g a \<inter> profile g b = {}"
      and "\<exists>x \<in> set (matches (final (script e conn_ok wfail now g))). between a b x"
    then obtain x where "x \<in> set (matches (final (script e conn_ok wfail now g)))" "between a b x"
      by blast
    from match_edge_between[OF assms this] have "candidate g a b \<or> candidate g b a" .
    with n show False by (auto simp: candidate_def)
  qed
  with matches_cleared[of g] script_matches[OF assms, of wfail now g]
    script_trace_prefix[OF assms, of wfail now g]
  show ?thesis by blast
qed

text \<open>
  A graph that still stores a match of A and C from an earlier run, although they share
  no material any more: after the run only the match of A and B is stored, recomputed.
\<close>

theorem wipe_before_write_witness:
  "\<not> missing_env env_ok \<and> True
   \<and> potential_match 0 2 (1 / 2) 1 [''m3''] 1 \<in> set (matches g_stale)
   \<and> profile g_stale 0 \<inter> profile g_stale 2 = {}
   \<and> matches (cleared g_stale) = []
   \<and> \<not> (\<exists>x \<in> set (matches (final (script env_ok True no_fail 5 g_stale))). between 0 2 x)
   \<and> matches (final (script env_ok True no_fail 5 g_stale))
        = [potential_match 0 1 (1 / 2) 1 [''m2''] 5]"
proof -
  have e: "\<not> missing_env env_ok"
    by code_simp
  have m: "potential_match 0 2 (1 / 2) 1 [''m3''] 1 \<in> set (matches g_stale)"
    by code_simp
  have p: "profile g_stale 0 \<inter> profile g_stale 2 = {}"
    by code_simp
  have v: "matches (final (script env_ok True no_fail 5 g_stale))
        = [potential_match 0 1 (1 / 2) 1 [''m2''] 5]"
    by code_simp
  note T = wipe_before_write[OF e TrueI, of g_stale no_fail 5]
  from T have t1: "matches (cleared g_stale) = []"
    by (rule conjunct1)
  from T p have t4: "\<not> (\<exists>x \<in> set (matches (final (script env_ok True no_fail 5 g_stale))).
      between 0 2 x)"
    by blast
  show ?thesis
    by (rule conjI[OF e conjI[OF TrueI conjI[OF m conjI[OF p conjI[OF t1 conjI[OF t4 v]]]]]])
qed

subsection \<open>C6: idempotence\<close>

lemma cleared_cleared: "cleared (cleared g) = cleared g"
  by (simp add: cleared_def delete_matches_def)

text \<open>
  Claim C6. A second run on the graph the first run left, in the same environment,
  ends with the same exit code and stores the same set of (pair, score, shared count)
  tuples; every stored score is the similarity of its row rounded to three decimal
  places.
\<close>

theorem idempotent_runs:
  assumes "\<not> missing_env e" "conn_ok"
  shows "exit_code (script e conn_ok wfail now' (final (script e conn_ok wfail now g)))
        = exit_code (script e conn_ok wfail now g)
    \<and> set (map match_tuple
             (matches (final (script e conn_ok wfail now' (final (script e conn_ok wfail now g))))))
        = set (map match_tuple (matches (final (script e conn_ok wfail now g))))
    \<and> (\<forall>x \<in> set (matches (final (script e conn_ok wfail now g))).
          \<exists>p r q. props x = Some p \<and> r \<in> set (scored_rows (cleared g))
            \<and> c1 r = src x \<and> c2 r = tgt x \<and> jaccard r = Fin q
            \<and> score p = Fin (of_int (round (q * 1000)) / 1000))"
proof -
  let ?g1 = "final (script e conn_ok wfail now g)"
  have c: "cleared ?g1 = cleared g"
  proof (cases "\<exists>r \<in> set (retained (cleared g)). wfail (c1 r) (c2 r)")
    case True
    then show ?thesis by (simp add: script_final[OF assms] cleared_cleared)
  next
    case False
    then show ?thesis by (simp add: script_final[OF assms] cleared_idem)
  qed
  have ex: "\<And>t h. exit_code (script e conn_ok wfail t h)
      = (if \<not> (\<exists>r \<in> set (retained (cleared h)). wfail (c1 r) (c2 r))
            \<and> retained (cleared h) \<noteq> [] then 0 else 1)"
  proof -
    fix t h
    show "exit_code (script e conn_ok wfail t h)
      = (if \<not> (\<exists>r \<in> set (retained (cleared h)). wfail (c1 r) (c2 r))
            \<and> retained (cleared h) \<noteq> [] then 0 else 1)"
    proof (cases "\<exists>r \<in> set (retained (cleared h)). wfail (c1 r) (c2 r)")
      case True
      with assms show ?thesis by (simp add: script_def main_write_failure)
    next
      case nf: False
      show ?thesis
      proof (cases "retained (cleared h) = []")
        case True
        with assms nf show ?thesis by (simp add: script_def main_no_match)
      next
        case False
        with assms nf show ?thesis by (simp add: script_def main_success)
      qed
    qed
  qed
  have e2: "exit_code (script e conn_ok wfail now' ?g1) = exit_code (script e conn_ok wfail now g)"
    unfolding ex c by (rule refl)
  have "map match_tuple (matches (final (script e conn_ok wfail now' ?g1)))
      = map match_tuple (matches ?g1)"
    unfolding script_matches[OF assms] c by (simp add: match_tuple_new_edge)
  then have t: "set (map match_tuple (matches (final (script e conn_ok wfail now' ?g1))))
      = set (map match_tuple (matches ?g1))"
    by (rule arg_cong)
  have "\<forall>x \<in> set (matches ?g1).
      \<exists>p r q. props x = Some p \<and> r \<in> set (scored_rows (cleared g))
        \<and> c1 r = src x \<and> c2 r = tgt x \<and> jaccard r = Fin q
        \<and> score p = Fin (of_int (round (q * 1000)) / 1000)"
  proof
    fix x assume "x \<in> set (matches ?g1)"
    from match_edge[OF assms this] obtain r where
      r: "r \<in> set (retained (cleared g))" "x = new_edge now r" by blast
    from retained_threshold[OF r(1)] obtain q where q: "jaccard r = Fin q" by blast
    have "props x = Some (new_props now r)" "r \<in> set (scored_rows (cleared g))"
      "c1 r = src x" "c2 r = tgt x"
      "score (new_props now r) = Fin (of_int (round (q * 1000)) / 1000)"
      using retained_scored[OF r(1)] by (simp_all add: r(2) new_edge_sel new_props_sel q)
    with q show "\<exists>p r q. props x = Some p \<and> r \<in> set (scored_rows (cleared g))
        \<and> c1 r = src x \<and> c2 r = tgt x \<and> jaccard r = Fin q
        \<and> score p = Fin (of_int (round (q * 1000)) / 1000)" by blast
  qed
  with e2 t show ?thesis by (intro conjI)
qed

text \<open>Two runs on the three-company scenario, at times 0 and 9.\<close>

theorem idempotent_runs_witness:
  "\<not> missing_env env_ok \<and> True
   \<and> potential_match 0 1 (333 / 1000) 1 [''SlagA''] 0
        \<in> set (matches (final (script env_ok True no_fail 0 g_scenario)))
   \<and> exit_code (script env_ok True no_fail 9 (final (script env_ok True no_fail 0 g_scenario)))
        = exit_code (script env_ok True no_fail 0 g_scenario)
   \<and> set (map match_tuple (matches (final (script env_ok True no_fail 9
              (final (script env_ok True no_fail 0 g_scenario))))))
        = set (map match_tuple (matches (final (script env_ok True no_fail 0 g_scenario))))
   \<and> (\<exists>p r q. props (potential_match 0 1 (333 / 1000) 1 [''SlagA''] 0) = Some p
          \<and> r \<in> set (scored_rows (cleared g_scenario))
          \<and> c1 r = src (potential_match 0 1 (333 / 1000) 1 [''SlagA''] 0)
          \<and> c2 r = tgt (potential_match 0 1 (333 / 1000) 1 [''SlagA''] 0)
          \<and> jaccard r = Fin q
          \<and> score p = Fin (of_int (round (q * 1000)) / 1000))"
proof -
  have e: "\<not> missing_env env_ok"
    by code_simp
  have m: "potential_match 0 1 (333 / 1000) 1 [''SlagA''] 0
        \<in> set (matches (final (script env_ok True no_fail 0 g_scenario)))"
    by code_simp
  note T = idempotent_runs[OF e TrueI, of no_fail 9 0 g_scenario]
  from T have t1: "exit_code (script env_ok True no_fail 9
      (final (script env_ok True no_fail 0 g_scenario)))
        = exit_code (script env_ok True no_fail 0 g_scenario)"
    by (rule conjunct1)
  from T have t2: "set (map match_tuple (matches (final (script env_ok True no_fail 9
              (final (script env_ok True no_fail 0 g_scenario))))))
        = set (map match_tuple (matches (final (script env_ok True no_fail 0 g_scenario))))"
    by blast
  from T m have t3: "\<exists>p r q. props (potential_match 0 1 (333 / 1000) 1 [''SlagA''] 0) = Some p
          \<and> r \<in> set (scored_rows (cleared g_scenario))
          \<and> c1 r = src (potential_match 0 1 (333 / 1000) 1 [''SlagA''] 0)
          \<and> c2 r = tgt (potential_match 0 1 (333 / 1000) 1 [''SlagA''] 0)
          \<and> jaccard r = Fin q
          \<and> score p = Fin (of_int (round (q * 1000)) / 1000)"
    by blast
  show ?thesis
    by (rule conjI[OF e conjI[OF TrueI conjI[OF m conjI[OF t1 conjI[OF t2 t3]]]]])
qed

subsection \<open>C7: a failing write\<close>

text \<open>
  Claim C7, as amended. The relationships are written by one statement in one
  transaction; nothing handles a single pair. If the write of any qualifying pair
  fails, the statement fails as a whole: no \<open>POTENTIAL_MATCH\<close> relationship is stored
  (the old ones are already deleted), the summary and the verification are skipped, the
  session and the driver are closed, and the error reaches \<open>main().catch\<close>, which
  prints \<open>FATAL\<close> and exits with code 1.
\<close>

theorem write_failure_aborts:
  assumes "\<not> missing_env e" "conn_ok" "r \<in> set (retained (cleared g))" "wfail (c1 r) (c2 r)"
  shows "exit_code (script e conn_ok wfail now g) = 1
    \<and> final (script e conn_ok wfail now g) = cleared g
    \<and> matches (final (script e conn_ok wfail now g)) = []
    \<and> trace (script e conn_ok wfail now g)
        = [LogConnecting, CreateDriver, VerifyConnectivity, LogConnected, OpenSession,
           LogClearing, QueryDelete, LogRemoved (length (matches g)), LogComputing, QueryCompute,
           CloseSession, CloseDriver, LogClosed, ErrFatal]"
proof -
  from assms(3,4) have f: "\<exists>r \<in> set (retained (cleared g)). wfail (c1 r) (c2 r)" by blast
  from assms(1,2) show ?thesis
    by (simp add: script_def main_write_failure[OF f] matches_cleared trace_to_compute_def
        finally_block_def)
qed

text \<open>On the three-company scenario, when the write for SteelCo and ChemCo fails.\<close>

theorem write_failure_aborts_witness:
  "\<not> missing_env env_ok \<and> True \<and> slag_row \<in> set (retained (cleared g_scenario))
   \<and> fail_first (c1 slag_row) (c2 slag_row)
   \<and> exit_code (script env_ok True fail_first 0 g_scenario) = 1
   \<and> final (script env_ok True fail_first 0 g_scenario) = cleared g_scenario
   \<and> matches (final (script env_ok True fail_first 0 g_scenario)) = []
   \<and> trace (script env_ok True fail_first 0 g_scenario)
        = [LogConnecting, CreateDriver, VerifyConnectivity, LogConnected, OpenSession,
           LogClearing, QueryDelete, LogRemoved (length (matches g_scenario)), LogComputing,
           QueryCompute, CloseSession, CloseDriver, LogClosed, ErrFatal]"
proof -
  have e: "\<not> missing_env env_ok"
    by code_simp
  have r: "slag_row \<in> set (retained (cleared g_scenario))"
    by code_simp
  have f: "fail_first (c1 slag_row) (c2 slag_row)"
    by code_simp
  note T = write_failure_aborts[where e = env_ok and conn_ok = True and r = slag_row
      and g = g_scenario and wfail = fail_first and now = 0, OF e TrueI r f]
  show ?thesis
    by (rule conjI[OF e conjI[OF TrueI conjI[OF r conjI[OF f T]]]])
qed

text \<open>
  The claim as written fails. On the three-company scenario two pairs qualify. When
  only the write for the first fails, the second, whose write would succeed, is not
  stored either, and the run ends with exit code 1.
\<close>

theorem write_failure_counterexample:
  "matches (final (script env_ok True no_fail 0 g_scenario))
     = [potential_match 0 1 (333 / 1000) 1 [''SlagA''] 0,
        potential_match 1 2 (333 / 1000) 1 [''SlagA''] 0]
   \<and> fail_first 0 1 \<and> \<not> fail_first 1 2
   \<and> exit_code (script env_ok True fail_first 0 g_scenario) = 1
   \<and> matches (final (script env_ok True fail_first 0 g_scenario)) = []
   \<and> trace (script env_ok True fail_first 0 g_scenario)
       = [LogConnecting, CreateDriver, VerifyConnectivity, LogConnected, OpenSession,
          LogClearing, QueryDelete, LogRemoved 0, LogComputing, QueryCompute,
          CloseSession, CloseDriver, LogClosed, ErrFatal]"
  by code_simp

subsection \<open>C8: the denominator\<close>

text \<open>
  Claim C8. Every row the query scores shares at least one material, so its denominator
  \<open>c1Total + c2Total - shared\<close> is positive, the division is an ordinary one, and the
  denominator \<open>|P(A)| + |P(B)| - |P(A) \<inter> P(B)|\<close> over the profiles is positive too. A pair
  whose profiles are both empty has no row: it is never scored and never stored.
\<close>

theorem denominator_nonzero:
  "(\<forall>r \<in> set (scored_rows g).
       0 < shared r
     \<and> 0 < denominator (c1Total r) (c2Total r) (shared r)
     \<and> jaccard r = Fin (of_nat (shared r) / of_int (denominator (c1Total r) (c2Total r) (shared r)))
     \<and> 0 < int (card (profile g (c1 r))) + int (card (profile g (c2 r)))
             - int (card (profile g (c1 r) \<inter> profile g (c2 r))))
   \<and> (\<forall>a b. profile g a = {} \<and> profile g b = {} \<longrightarrow>
         \<not> (\<exists>r \<in> set (scored_rows g). c1 r = a \<and> c2 r = b))"
proof (intro conjI ballI allI impI notI)
  fix r assume r: "r \<in> set (scored_rows g)"
  have pos: "0 < card (profile g (c1 r) \<inter> profile g (c2 r))"
    by (rule candidate_shared_pos[OF scored_row_candidate[OF r]])
  then show "0 < shared r" by (simp add: scored_row_shared[OF r])
  show "0 < denominator (c1Total r) (c2Total r) (shared r)"
    by (rule scored_row_denominator[OF r])
  show "jaccard r = Fin (of_nat (shared r) / of_int (denominator (c1Total r) (c2Total r) (shared r)))"
    by (rule scored_row_jaccard[OF r])
  show "0 < int (card (profile g (c1 r))) + int (card (profile g (c2 r)))
             - int (card (profile g (c1 r) \<inter> profile g (c2 r)))"
    using pos card_inter_le1[of g "c1 r" "c2 r"] card_inter_le2[of g "c1 r" "c2 r"] by linarith
next
  fix a b assume "profile g a = {} \<and> profile g b = {}"
    and "\<exists>r \<in> set (scored_rows g). c1 r = a \<and> c2 r = b"
  with scored_row_candidate[of _ g] show False by (auto simp: candidate_def)
qed

text \<open>A and B share m1; C and D have empty profiles.\<close>

theorem denominator_nonzero_witness:
  "idle_row \<in> set (scored_rows g_idle)
   \<and> profile g_idle 2 = {} \<and> profile g_idle 3 = {}
   \<and> 0 < shared idle_row
   \<and> 0 < denominator (c1Total idle_row) (c2Total idle_row) (shared idle_row)
   \<and> jaccard idle_row = Fin (of_nat (shared idle_row)
        / of_int (denominator (c1Total idle_row) (c2Total idle_row) (shared idle_row)))
   \<and> \<not> (\<exists>r \<in> set (scored_rows g_idle). c1 r = 2 \<and> c2 r = 3)"
proof -
  have r: "idle_row \<in> set (scored_rows g_idle)"
    by code_simp
  have p2: "profile g_idle 2 = {}"
    by code_simp
  have p3: "profile g_idle 3 = {}"
    by code_simp
  note T = denominator_nonzero[of g_idle]
  from T r have t1: "0 < shared idle_row"
    by blast
  from T r have t2: "0 < denominator (c1Total idle_row) (c2Total idle_row) (shared idle_row)"
    by blast
  from T r have t3: "jaccard idle_row = Fin (of_nat (shared idle_row)
        / of_int (denominator (c1Total idle_row) (c2Total idle_row) (shared idle_row)))"
    by blast
  from T p2 p3 have t4: "\<not> (\<exists>r \<in> set (scored_rows g_idle). c1 r = 2 \<and> c2 r = 3)"
    by blast
  show ?thesis
    by (rule conjI[OF r conjI[OF p2 conjI[OF p3 conjI[OF t1 conjI[OF t2 conjI[OF t3 t4]]]]]])
qed

subsection \<open>C9: the sample of names\<close>

text \<open>
  Claim C9. Every stored \<open>POTENTIAL_MATCH\<close> relationship has at most five entries in
  \<open>shared_names\<close>, also when more than five materials are shared.
\<close>

theorem shared_names_bounded:
  assumes "\<not> missing_env e" "conn_ok"
  shows "\<forall>x \<in> set (matches (final (script e conn_ok wfail now g))).
           \<exists>p. props x = Some p \<and> length (shared_names p) \<le> 5"
proof
  fix x assume "x \<in> set (matches (final (script e conn_ok wfail now g)))"
  from match_edge[OF assms this] obtain r where "x = new_edge now r" by blast
  then show "\<exists>p. props x = Some p \<and> length (shared_names p) \<le> 5"
    by (simp add: new_edge_sel new_props_sel)
qed

text \<open>Two companies that share six materials.\<close>

theorem shared_names_bounded_witness:
  "\<not> missing_env env_ok \<and> True
   \<and> potential_match 0 1 1 6 [''m1'', ''m2'', ''m3'', ''m4'', ''m5''] 0
        \<in> set (matches (final (script env_ok True no_fail 0 g_six)))
   \<and> card (profile g_six 0 \<inter> profile g_six 1) = 6
   \<and> (\<exists>p. props (potential_match 0 1 1 6 [''m1'', ''m2'', ''m3'', ''m4'', ''m5''] 0) = Some p
         \<and> length (shared_names p) \<le> 5)"
proof -
  have e: "\<not> missing_env env_ok"
    by code_simp
  have m: "potential_match 0 1 1 6 [''m1'', ''m2'', ''m3'', ''m4'', ''m5''] 0
        \<in> set (matches (final (script env_ok True no_fail 0 g_six)))"
    by code_simp
  have c: "card (profile g_six 0 \<inter> profile g_six 1) = 6"
    by code_simp
  from shared_names_bounded[OF e TrueI, of no_fail 0 g_six] m
  have t: "\<exists>p. props (potential_match 0 1 1 6 [''m1'', ''m2'', ''m3'', ''m4'', ''m5''] 0) = Some p
         \<and> length (shared_names p) \<le> 5"
    by blast
  show ?thesis
    by (rule conjI[OF e conjI[OF TrueI conjI[OF m conjI[OF c t]]]])
qed

subsection \<open>C10: the environment\<close>

text \<open>
  Claim C10. If \<open>NEO4J_URI\<close>, \<open>NEO4J_USERNAME\<close> or \<open>NEO4J_PASSWORD\<close> is unset, the
  process prints the error and exits with code 1; that line is all it does: no driver
  is created, no statement is sent, the graph is as it was.
\<close>

theorem missing_env_exits:
  assumes "NEO4J_URI e = None \<or> NEO4J_USERNAME e = None \<or> NEO4J_PASSWORD e = None"
  shows "script e conn_ok wfail now g = \<lparr>trace = [ErrMissingEnv], exit_code = 1, final = g\<rparr>"
proof -
  from assms have "missing_env e" by (auto simp: missing_env_def falsy_def)
  then show ?thesis by (simp add: script_def)
qed

text \<open>With the password unset.\<close>

theorem missing_env_exits_witness:
  "(NEO4J_URI env_no_password = None \<or> NEO4J_USERNAME env_no_password = None
      \<or> NEO4J_PASSWORD env_no_password = None)
   \<and> script env_no_password True no_fail 0 g_half
        = \<lparr>trace = [ErrMissingEnv], exit_code = 1, final = g_half\<rparr>"
proof -
  have h: "NEO4J_URI env_no_password = None \<or> NEO4J_USERNAME env_no_password = None
      \<or> NEO4J_PASSWORD env_no_password = None"
    by (simp add: env_no_password_def)
  show ?thesis
    by (rule conjI[OF h missing_env_exits[OF h]])
qed

end
